theory Spec2Isabelle
  imports Main "HOL-Library.Log_Nat"
begin

section \<open>Python floats\<close>

text \<open>
  The script computes with Python floats (IEEE 754 binary64, round to nearest, ties to
  even). A finite float is modelled by its exact rational value; the special values are
  separate constructors. \<open>fl_round\<close> maps the exact result of an operation to the
  nearest binary64 value: 53 significant bits, smallest exponent \<open>-1074\<close>, overflow
  to infinity from \<open>2 ^ 1024\<close> on.
\<close>

datatype pyfloat = Fin rat | NegZero | PosInf | NegInf | NaN

definition pow2 :: "int \<Rightarrow> rat" where
  "pow2 e = (if 0 \<le> e then 2 ^ nat e else 1 / 2 ^ nat (- e))"

definition ilog2 :: "rat \<Rightarrow> int" where
  "ilog2 a = (if 1 \<le> a then bitlen \<lfloor>a\<rfloor> - 1 else - bitlen (\<lceil>1 / a\<rceil> - 1))"

definition round_half_even :: "rat \<Rightarrow> int" where
  "round_half_even x =
     (let f = \<lfloor>x\<rfloor>; d = x - of_int f
      in if d < 1 / 2 then f
         else if 1 / 2 < d then f + 1
         else if even f then f else f + 1)"

definition fl_round :: "rat \<Rightarrow> pyfloat" where
  "fl_round q =
     (if q = 0 then Fin 0
      else
        let a = \<bar>q\<bar>;
            e = max (ilog2 a - 52) (- 1074);
            m = round_half_even (a / pow2 e);
            r = of_int m * pow2 e
        in if pow2 1024 \<le> r then (if q < 0 then NegInf else PosInf)
           else if m = 0 then (if q < 0 then NegZero else Fin 0)
           else Fin (if q < 0 then - r else r))"

fun fval :: "pyfloat \<Rightarrow> rat" where
  "fval (Fin q) = q"
| "fval _ = 0"

fun is_nan :: "pyfloat \<Rightarrow> bool" where
  "is_nan NaN = True"
| "is_nan _ = False"

fun is_inf :: "pyfloat \<Rightarrow> bool" where
  "is_inf PosInf = True"
| "is_inf NegInf = True"
| "is_inf _ = False"

fun is_zero :: "pyfloat \<Rightarrow> bool" where
  "is_zero (Fin q) = (q = 0)"
| "is_zero NegZero = True"
| "is_zero _ = False"

fun is_neg :: "pyfloat \<Rightarrow> bool" where
  "is_neg (Fin q) = (q < 0)"
| "is_neg NegZero = True"
| "is_neg NegInf = True"
| "is_neg _ = False"

fun is_finite :: "pyfloat \<Rightarrow> bool" where
  "is_finite (Fin q) = True"
| "is_finite NegZero = True"
| "is_finite _ = False"

definition signed_zero :: "bool \<Rightarrow> pyfloat" where
  "signed_zero neg = (if neg then NegZero else Fin 0)"

definition signed_inf :: "bool \<Rightarrow> pyfloat" where
  "signed_inf neg = (if neg then NegInf else PosInf)"

fun py_neg :: "pyfloat \<Rightarrow> pyfloat" where
  "py_neg (Fin q) = (if q = 0 then NegZero else Fin (- q))"
| "py_neg NegZero = Fin 0"
| "py_neg PosInf = NegInf"
| "py_neg NegInf = PosInf"
| "py_neg NaN = NaN"

definition py_add :: "pyfloat \<Rightarrow> pyfloat \<Rightarrow> pyfloat" where
  "py_add x y =
     (if is_nan x \<or> is_nan y then NaN
      else if is_inf x \<and> is_inf y then (if x = y then x else NaN)
      else if is_inf x then x
      else if is_inf y then y
      else if x = NegZero \<and> y = NegZero then NegZero
      else fl_round (fval x + fval y))"

definition py_sub :: "pyfloat \<Rightarrow> pyfloat \<Rightarrow> pyfloat" where
  "py_sub x y = py_add x (py_neg y)"

definition py_mul :: "pyfloat \<Rightarrow> pyfloat \<Rightarrow> pyfloat" where
  "py_mul x y =
     (if is_nan x \<or> is_nan y then NaN
      else if is_inf x \<or> is_inf y then
        (if is_zero x \<or> is_zero y then NaN else signed_inf (is_neg x \<noteq> is_neg y))
      else if is_zero x \<or> is_zero y then signed_zero (is_neg x \<noteq> is_neg y)
      else fl_round (fval x * fval y))"

datatype py_error =
    ZeroDivisionError
  | IndexError
  | JSONDecodeError
  | RequestException
  | UnpicklingError
  | StreamlitAPIException
  | ModelError

text \<open>True division of Python floats raises on a zero divisor, whatever the dividend.\<close>

definition py_truediv :: "pyfloat \<Rightarrow> pyfloat \<Rightarrow> py_error + pyfloat" where
  "py_truediv x y =
     (if is_zero y then Inl ZeroDivisionError
      else Inr
        (if is_nan x \<or> is_nan y then NaN
         else if is_inf x then (if is_inf y then NaN else signed_inf (is_neg x \<noteq> is_neg y))
         else if is_inf y then signed_zero (is_neg x \<noteq> is_neg y)
         else if is_zero x then signed_zero (is_neg x \<noteq> is_neg y)
         else fl_round (fval x / fval y)))"

text \<open>An int operand of a mixed operation is converted to float first.\<close>

definition py_float :: "int \<Rightarrow> pyfloat" where
  "py_float n = fl_round (of_int n)"

subsection \<open>Formatting with \<open>:.2f\<close>\<close>

definition digit_char :: "int \<Rightarrow> char" where
  "digit_char d = ''0123456789'' ! nat d"

text \<open>The decimal digits of an int that is not negative.\<close>

function str_int :: "int \<Rightarrow> string" where
  "str_int n = (if n < 10 then [digit_char n] else str_int (n div 10) @ [digit_char (n mod 10)])"
  by pat_completeness auto
termination
  by (relation "measure nat") auto

text \<open>
  The exact binary value is rounded to two decimals, ties to even; the sign of a
  negative value is kept even when the digits are all zero.
\<close>

definition fmt_2f :: "pyfloat \<Rightarrow> string" where
  "fmt_2f x =
     (case x of
        NaN \<Rightarrow> ''nan''
      | PosInf \<Rightarrow> ''inf''
      | NegInf \<Rightarrow> ''-inf''
      | NegZero \<Rightarrow> ''-0.00''
      | Fin q \<Rightarrow>
          (let n = round_half_even (\<bar>q\<bar> * 100)
           in (if q < 0 then ''-'' else '''') @ str_int (n div 100) @ ''.''
              @ [digit_char (n div 10 mod 10), digit_char (n mod 10)]))"

section \<open>Python sequences and script steps\<close>

text \<open>
  Indexing a list or an array by an integer: a negative index counts from the end, an
  index outside the sequence raises \<open>IndexError\<close>.
\<close>

definition py_index :: "'a list \<Rightarrow> int \<Rightarrow> py_error + 'a" where
  "py_index xs i =
     (let j = (if i < 0 then i + int (length xs) else i)
      in if j < 0 \<or> int (length xs) \<le> j then Inl IndexError else Inr (xs ! nat j))"

datatype json =
    JNull
  | JBool bool
  | JNum rat
  | JStr string
  | JArr "json list"
  | JObj "(string \<times> json) list"

text \<open>Truth value of a decoded JSON document; \<open>None\<close> is \<open>JNull\<close>.\<close>

fun truthy :: "json \<Rightarrow> bool" where
  "truthy JNull = False"
| "truthy (JBool b) = b"
| "truthy (JNum q) = (q \<noteq> 0)"
| "truthy (JStr s) = (s \<noteq> [])"
| "truthy (JArr xs) = (xs \<noteq> [])"
| "truthy (JObj kvs) = (kvs \<noteq> [])"

datatype http_body = NotJson | JsonBody json

text \<open>What \<open>requests.get\<close> does for a URL: it raises, or returns a response.\<close>

datatype http_outcome = Raises py_error | Response int http_body

datatype model_method = Predict | PredictProba

datatype cell = IntCell int | FloatCell pyfloat

text \<open>A data frame: rows of named cells, columns in insertion order.\<close>

type_synonym data_frame = "(string \<times> cell) list list"

text \<open>
  The unpickled pipeline of \<open>retinopathy_model_svm.pkl\<close>. The artifact is not part of
  the sources; it is a parameter of the script.
\<close>

record classifier =
  predict :: "data_frame \<Rightarrow> py_error + int list"
  predict_proba :: "data_frame \<Rightarrow> py_error + pyfloat list list"

record indicator =
  ind_mode :: string
  ind_value :: pyfloat
  ind_title :: string
  axis_range :: "int \<times> int"
  bar_color :: string
  steps :: "((int \<times> int) \<times> string) list"
  threshold_line :: "string \<times> int"
  threshold_thickness :: pyfloat
  threshold_value :: pyfloat

datatype static =
    Page_config
  | Css
  | App_title
  | App_intro
  | Welcome_heading
  | Sidebar
  | Form_header
  | Result_heading
  | What_to_do_next
  | Wellness_tip
  | Confidence_heading
  | Footer

text \<open>
  What a run of the script does, in order: the elements it renders and the calls it makes
  to the network and to the classifier. Constant texts are named by \<open>static\<close>.
\<close>

datatype event =
    Static static
  | Http_get string
  | St_lottie nat json
  | St_warning nat
  | Model_call model_method data_frame
  | Derived_box string
  | St_error string
  | St_success string
  | Plotly_chart indicator
  | Download_button string string string

text \<open>
  A step of the script yields the events so far and either a value or the exception that
  stopped the run. An uncaught exception ends the script: nothing after it is executed.
\<close>

type_synonym 'a step = "event list \<times> (py_error + 'a)"

definition emit :: "event list \<Rightarrow> unit step" where
  "emit evs = (evs, Inr ())"

definition lift :: "py_error + 'a \<Rightarrow> 'a step" where
  "lift r = ([], r)"

definition and_then :: "'a step \<Rightarrow> ('a \<Rightarrow> 'b step) \<Rightarrow> 'b step" where
  "and_then s f =
     (case s of
        (tr, Inl e) \<Rightarrow> (tr, Inl e)
      | (tr, Inr a) \<Rightarrow> (case f a of (tr', r) \<Rightarrow> (tr @ tr', r)))"

section \<open>The script\<close>

subsection \<open>Animations\<close>

definition load_lottie_url :: "(string \<Rightarrow> http_outcome) \<Rightarrow> string \<Rightarrow> json step" where
  "load_lottie_url get url =
     (case get url of
        Raises e \<Rightarrow> ([Http_get url], Inl e)
      | Response status_code body \<Rightarrow>
          if status_code \<noteq> 200 then ([Http_get url], Inr JNull)
          else (case body of
                  NotJson \<Rightarrow> ([Http_get url], Inl JSONDecodeError)
                | JsonBody j \<Rightarrow> ([Http_get url], Inr j)))"

definition urls :: "string list" where
  "urls = [''https://assets1.lottiefiles.com/packages/lf20_3vbOcw.json'',
           ''https://assets2.lottiefiles.com/packages/lf20_tutvdkg0.json'']"

text \<open>The list comprehension over \<open>urls\<close>: one fetch after the other.\<close>

fun load_all :: "(string \<Rightarrow> http_outcome) \<Rightarrow> string list \<Rightarrow> json list step" where
  "load_all get [] = ([], Inr [])"
| "load_all get (url # rest) =
     and_then (load_lottie_url get url) (\<lambda>a.
     and_then (load_all get rest) (\<lambda>as. ([], Inr (a # as))))"

definition show_animation :: "nat \<Rightarrow> json list \<Rightarrow> int \<Rightarrow> unit step" where
  "show_animation col animations i =
     and_then (lift (py_index animations i)) (\<lambda>a.
       emit [if truthy a then St_lottie col a else St_warning col])"

definition animation_section :: "(string \<Rightarrow> http_outcome) \<Rightarrow> unit step" where
  "animation_section get =
     and_then (emit [Static Welcome_heading]) (\<lambda>_.
     and_then (load_all get urls) (\<lambda>animations.
     and_then (show_animation 1 animations 0) (\<lambda>_.
       show_animation 2 animations 1)))"

subsection \<open>Input form\<close>

datatype policy = Reject | Clamp

text \<open>
  Modelled from the spec: \<open>st.number_input\<close> is Streamlit's widget, not code of this
  repository. The spec says that values outside the range are clamped or rejected at the
  UI boundary before a request is constructed; \<open>policy\<close> says which of the two the
  front end does, \<open>typed\<close> lists what the operator entered since the page was loaded,
  and a rejected entry leaves the widget at its last value. The widget refuses a default
  outside its own bounds.
\<close>

definition commit :: "policy \<Rightarrow> 'a::linorder \<Rightarrow> 'a \<Rightarrow> 'a \<Rightarrow> 'a \<Rightarrow> 'a" where
  "commit p lo hi cur entry =
     (if lo \<le> entry \<and> entry \<le> hi then entry
      else case p of Reject \<Rightarrow> cur | Clamp \<Rightarrow> max lo (min hi entry))"

definition number_input ::
  "policy \<Rightarrow> 'a::linorder \<Rightarrow> 'a \<Rightarrow> 'a \<Rightarrow> 'a list \<Rightarrow> py_error + 'a" where
  "number_input p min_value max_value value typed =
     (if value < min_value \<or> max_value < value then Inl StreamlitAPIException
      else Inr (foldl (commit p min_value max_value) value typed))"

record request =
  age :: int
  systolic_bp :: pyfloat
  diastolic_bp :: pyfloat
  cholesterol :: pyfloat

record world =
  artifact :: "py_error + classifier"
  http :: "string \<Rightarrow> http_outcome"
  front_end :: policy
  age_typed :: "int list"
  systolic_typed :: "rat list"
  cholesterol_typed :: "rat list"
  diastolic_typed :: "rat list"
  submitted :: bool
  theme_base :: "string option"

definition input_form :: "world \<Rightarrow> request step" where
  "input_form w =
     and_then (emit [Static Form_header]) (\<lambda>_.
     and_then (lift (number_input (front_end w) 30 105 50 (age_typed w))) (\<lambda>a.
     and_then (lift (number_input (front_end w) 70 130 120 (systolic_typed w))) (\<lambda>s.
     and_then (lift (number_input (front_end w) 70 130 90 (cholesterol_typed w))) (\<lambda>c.
     and_then (lift (number_input (front_end w) 60 120 80 (diastolic_typed w))) (\<lambda>d.
       ([], Inr \<lparr>age = a, systolic_bp = Fin s, diastolic_bp = Fin d, cholesterol = Fin c\<rparr>))))))"

subsection \<open>Prediction\<close>

definition input_df :: "request \<Rightarrow> data_frame" where
  "input_df r =
     [[(''age'', IntCell (age r)),
       (''systolic_bp'', FloatCell (systolic_bp r)),
       (''diastolic_bp'', FloatCell (diastolic_bp r)),
       (''cholesterol'', FloatCell (cholesterol r))]]"

record prediction_result =
  prediction :: int
  pred_proba :: "pyfloat list"
  confidence :: pyfloat

definition invoke :: "classifier \<Rightarrow> data_frame \<Rightarrow> prediction_result step" where
  "invoke model df =
     and_then ([Model_call Predict df], predict model df) (\<lambda>labels.
     and_then (lift (py_index labels 0)) (\<lambda>p.
     and_then ([Model_call PredictProba df], predict_proba model df) (\<lambda>probas.
     and_then (lift (py_index probas 0)) (\<lambda>pp.
     and_then (lift (py_index pp p)) (\<lambda>c.
       ([], Inr \<lparr>prediction = p, pred_proba = pp, confidence = c\<rparr>))))))"

record derived_metrics =
  pulse_pressure :: pyfloat
  mean_arterial_pressure :: pyfloat

definition derived :: "pyfloat \<Rightarrow> pyfloat \<Rightarrow> py_error + derived_metrics" where
  "derived systolic diastolic =
     (case py_truediv (py_add systolic (py_mul (py_float 2) diastolic)) (py_float 3) of
        Inl e \<Rightarrow> Inl e
      | Inr m \<Rightarrow>
          Inr \<lparr>pulse_pressure = py_sub systolic diastolic, mean_arterial_pressure = m\<rparr>)"

subsection \<open>Rendering\<close>

definition nl :: string where
  "nl = [CHR 0x0A]"

definition apostrophe :: string where
  "apostrophe = [CHR 0x27]"

text \<open>The emoji of the dynamic texts, as their UTF-8 bytes.\<close>

definition test_tube :: string where
  "test_tube = [CHR 0xF0, CHR 0x9F, CHR 0xA7, CHR 0xAA]"

definition check_mark :: string where
  "check_mark = [CHR 0xE2, CHR 0x9C, CHR 0x85]"

definition page_facing_up :: string where
  "page_facing_up = [CHR 0xF0, CHR 0x9F, CHR 0x93, CHR 0x84]"

definition derived_box :: "string option \<Rightarrow> derived_metrics \<Rightarrow> string" where
  "derived_box theme dm =
     (let is_dark = (theme = Some ''dark'');
          bg_color = (if is_dark then ''#2b2b2b'' else ''#f0f0f5'');
          text_color = (if is_dark then ''#ffffff'' else ''#000000'')
      in nl @ ''        <div style='' @ apostrophe
         @ nl @ ''            padding: 10px;''
         @ nl @ ''            background-color: '' @ bg_color @ '';''
         @ nl @ ''            color: '' @ text_color @ '';''
         @ nl @ ''            border-radius: 10px;''
         @ nl @ ''            margin-top: 10px;''
         @ nl @ ''        '' @ apostrophe @ ''>''
         @ nl @ ''            <b>Pulse Pressure:</b> '' @ fmt_2f (pulse_pressure dm) @ '' mmHg<br>''
         @ nl @ ''            <b>Mean Arterial Pressure:</b> ''
              @ fmt_2f (mean_arterial_pressure dm) @ '' mmHg''
         @ nl @ ''        </div>''
         @ nl @ ''    '')"

definition result_message :: "int \<Rightarrow> pyfloat \<Rightarrow> event list" where
  "result_message p c =
     (if p = 1 then
        [St_error (test_tube
           @ '' The model predicts **presence** of Diabetic Retinopathy (Confidence: ''
           @ fmt_2f c @ '')''),
         Static What_to_do_next]
      else
        [St_success (check_mark
           @ '' The model predicts **no signs** of Diabetic Retinopathy (Confidence: ''
           @ fmt_2f c @ '')''),
         Static Wellness_tip])"

definition gauge :: "int \<Rightarrow> pyfloat \<Rightarrow> indicator" where
  "gauge p c =
     \<lparr>ind_mode = ''gauge+number'',
      ind_value = py_mul c (py_float 100),
      ind_title = (if p = 1 then ''Confidence in DR Presence (%)'' else ''Confidence in No DR (%)''),
      axis_range = (0, 100),
      bar_color = (if p = 0 then ''green'' else ''red''),
      steps = [((0, 50), ''#d4edda''), ((50, 75), ''#fff3cd''), ((75, 100), ''#f8d7da'')],
      threshold_line = (''black'', 4),
      threshold_thickness = Fin (3 / 4),
      threshold_value = py_mul c (py_float 100)\<rparr>"

text \<open>The label of the report is chosen by the truth value of \<open>prediction\<close>.\<close>

definition label_text :: "int \<Rightarrow> string" where
  "label_text p = (if p \<noteq> 0 then ''DR Present'' else ''No DR'')"

definition report :: "int \<Rightarrow> pyfloat \<Rightarrow> derived_metrics \<Rightarrow> string" where
  "report p c dm =
     nl @ ''Prediction: '' @ label_text p
     @ nl @ ''Confidence: '' @ fmt_2f c
     @ nl @ ''Pulse Pressure: '' @ fmt_2f (pulse_pressure dm)
     @ nl @ ''Mean Arterial Pressure: '' @ fmt_2f (mean_arterial_pressure dm)
     @ nl"

definition render :: "string option \<Rightarrow> prediction_result \<Rightarrow> derived_metrics \<Rightarrow> event list" where
  "render theme res dm =
     [Derived_box (derived_box theme dm), Static Result_heading]
     @ result_message (prediction res) (confidence res)
     @ [Static Confidence_heading,
        Plotly_chart (gauge (prediction res) (confidence res)),
        Download_button (page_facing_up @ '' Download Report'')
          (report (prediction res) (confidence res) dm) ''dr_prediction_report.txt'']"

definition prediction_section :: "world \<Rightarrow> classifier \<Rightarrow> request \<Rightarrow> unit step" where
  "prediction_section w model r =
     and_then (invoke model (input_df r)) (\<lambda>res.
     and_then (lift (derived (systolic_bp r) (diastolic_bp r))) (\<lambda>dm.
       emit (render (theme_base w) res dm)))"

subsection \<open>One run of the script\<close>

definition run :: "world \<Rightarrow> unit step" where
  "run w =
     and_then (lift (artifact w)) (\<lambda>model.
     and_then (emit [Static Page_config, Static Css, Static App_title, Static App_intro]) (\<lambda>_.
     and_then (animation_section (http w)) (\<lambda>_.
     and_then (emit [Static Sidebar]) (\<lambda>_.
     and_then (input_form w) (\<lambda>r.
     and_then (if submitted w then prediction_section w model r else emit []) (\<lambda>_.
       emit [Static Footer]))))))"

section \<open>Observations on a run\<close>

text \<open>The domains of the four inputs, as the form and the sidebar state them.\<close>

definition in_range :: "rat \<Rightarrow> rat \<Rightarrow> pyfloat \<Rightarrow> bool" where
  "in_range lo hi x = (case x of Fin q \<Rightarrow> lo \<le> q \<and> q \<le> hi | _ \<Rightarrow> False)"

definition in_domain :: "request \<Rightarrow> bool" where
  "in_domain r =
     (30 \<le> age r \<and> age r \<le> 105
      \<and> in_range 70 130 (systolic_bp r)
      \<and> in_range 60 120 (diastolic_bp r)
      \<and> in_range 70 130 (cholesterol r))"

fun model_calls :: "event list \<Rightarrow> (model_method \<times> data_frame) list" where
  "model_calls [] = []"
| "model_calls (Model_call m df # evs) = (m, df) # model_calls evs"
| "model_calls (_ # evs) = model_calls evs"

fun charts :: "event list \<Rightarrow> indicator list" where
  "charts [] = []"
| "charts (Plotly_chart g # evs) = g # charts evs"
| "charts (_ # evs) = charts evs"

fun downloads :: "event list \<Rightarrow> (string \<times> string) list" where
  "downloads [] = []"
| "downloads (Download_button label content file_name # evs) = (content, file_name) # downloads evs"
| "downloads (_ # evs) = downloads evs"

definition risk_present_branch :: "event list \<Rightarrow> bool" where
  "risk_present_branch evs = (Static What_to_do_next \<in> set evs)"

definition risk_absent_branch :: "event list \<Rightarrow> bool" where
  "risk_absent_branch evs = (Static Wellness_tip \<in> set evs)"

subsection \<open>Example inputs\<close>

text \<open>A classifier whose label is not the class of largest probability.\<close>

definition contrary_classifier :: classifier where
  "contrary_classifier =
     \<lparr>predict = (\<lambda>df. Inr [1]),
      predict_proba = (\<lambda>df. Inr [[Fin (7 / 10), Fin (3 / 10)]])\<rparr>"

definition default_request :: request where
  "default_request =
     \<lparr>age = 50, systolic_bp = Fin 120, diastolic_bp = Fin 80, cholesterol = Fin 90\<rparr>"

text \<open>
  A run in which both animation fetches answer 404, nothing is entered in the form and
  the operator submits.
\<close>

definition example_world :: world where
  "example_world =
     \<lparr>artifact = Inr contrary_classifier,
      http = (\<lambda>url. Response 404 NotJson),
      front_end = Reject,
      age_typed = [],
      systolic_typed = [],
      cholesterol_typed = [],
      diastolic_typed = [],
      submitted = True,
      theme_base = None\<rparr>"

text \<open>The same run with systolic 70.0 and diastolic 120.0 entered.\<close>

definition low_pulse_world :: world where
  "low_pulse_world = example_world\<lparr>systolic_typed := [70], diastolic_typed := [120]\<rparr>"

text \<open>The result of that classifier, and the derived metrics of the default request.\<close>

definition contrary_result :: prediction_result where
  "contrary_result =
     \<lparr>prediction = 1, pred_proba = [Fin (7 / 10), Fin (3 / 10)], confidence = Fin (3 / 10)\<rparr>"

definition default_metrics :: derived_metrics where
  "default_metrics =
     \<lparr>pulse_pressure = Fin 40,
      mean_arterial_pressure = Fin (6567749456581973 / 70368744177664)\<rparr>"

definition low_pulse_request :: request where
  "low_pulse_request =
     \<lparr>age = 50, systolic_bp = Fin 70, diastolic_bp = Fin 120, cholesterol = Fin 90\<rparr>"

text \<open>Reading a decimal numeral back: the value of a string of digits.\<close>

definition is_digit :: "char \<Rightarrow> bool" where
  "is_digit c = (c \<in> set ''0123456789'')"

definition digit_val :: "char \<Rightarrow> int" where
  "digit_val c = int (of_char c) - 48"

definition decimal_value :: "string \<Rightarrow> int" where
  "decimal_value ds = foldl (\<lambda>a c. 10 * a + digit_val c) 0 ds"

subsection \<open>The classifier artifact\<close>

text \<open>
  Modelled from the spec: the fitted classifier is the pickled artifact that
  \<open>load_model\<close> reads, not source code of this repository. The spec describes it as a
  binary classifier over the four-field record, whose \<open>predict\<close> yields a label and
  whose \<open>predict_proba\<close> yields the vector of the two class probabilities. For a frame
  of one row that is one label, 0 or 1, and one row of two probabilities.
\<close>

definition binary_classifier :: "classifier \<Rightarrow> bool" where
  "binary_classifier m =
     (\<forall>r. in_domain r \<longrightarrow>
        (\<exists>l p0 p1. predict m (input_df r) = Inr [l] \<and> (l = 0 \<or> l = 1)
           \<and> predict_proba m (input_df r) = Inr [[Fin p0, Fin p1]]
           \<and> 0 \<le> p0 \<and> p0 \<le> 1 \<and> 0 \<le> p1 \<and> p1 \<le> 1))"

section \<open>Properties\<close>

subsection \<open>Steps that complete\<close>

lemma and_then_Inr:
  "and_then s f = (tr, Inr b) \<Longrightarrow>
     \<exists>t1 a t2. s = (t1, Inr a) \<and> f a = (t2, Inr b) \<and> tr = t1 @ t2"
  by (auto simp: and_then_def split: prod.splits sum.splits)

lemma invoke_Inr:
  assumes "invoke m df = (tr, Inr res)"
  shows "\<exists>labels probas.
           predict m df = Inr labels \<and> py_index labels 0 = Inr (prediction res)
           \<and> predict_proba m df = Inr probas \<and> py_index probas 0 = Inr (pred_proba res)
           \<and> py_index (pred_proba res) (prediction res) = Inr (confidence res)
           \<and> tr = [Model_call Predict df, Model_call PredictProba df]"
  using assms unfolding invoke_def lift_def
  by (auto simp: and_then_def split: prod.splits sum.splits)

lemma invoke_contrary:
  "invoke contrary_classifier df =
     ([Model_call Predict df, Model_call PredictProba df],
      Inr \<lparr>prediction = 1, pred_proba = [Fin (7 / 10), Fin (3 / 10)],
           confidence = Fin (3 / 10)\<rparr>)"
  by (simp add: invoke_def contrary_classifier_def and_then_def lift_def py_index_def)

subsection \<open>Confidence\<close>

lemma invoke_complete:
  assumes "predict m df = Inr labels" "py_index labels 0 = Inr p"
    "predict_proba m df = Inr probas" "py_index probas 0 = Inr pp" "py_index pp p = Inr c"
  shows "invoke m df = ([Model_call Predict df, Model_call PredictProba df],
     Inr \<lparr>prediction = p, pred_proba = pp, confidence = c\<rparr>)"
  using assms by (simp add: invoke_def and_then_def lift_def)

text \<open>
  C1. The invocation completes with a result exactly when the classifier answers both
  calls, the first label and the first probability vector exist, and the vector can be
  indexed by the label; the result then holds the label that \<open>predict\<close> returned, the
  vector that \<open>predict_proba\<close> returned, and as confidence the entry of that vector at
  the index of that label, in the sense of Python indexing (for a label that is not
  negative, the entry at that position). Nothing relates the confidence to the largest
  entry: for the classifier of the witness the label is 1, the vector is (0.7, 0.3) and
  the confidence is 0.3.
\<close>

theorem confidence_at_predicted_index:
  "(invoke m df = (tr, Inr res) \<longleftrightarrow>
      (\<exists>labels probas.
         predict m df = Inr labels \<and> py_index labels 0 = Inr (prediction res)
         \<and> predict_proba m df = Inr probas \<and> py_index probas 0 = Inr (pred_proba res)
         \<and> py_index (pred_proba res) (prediction res) = Inr (confidence res)
         \<and> tr = [Model_call Predict df, Model_call PredictProba df]))
   \<and> (invoke m df = (tr, Inr res) \<and> 0 \<le> prediction res
        \<longrightarrow> confidence res = pred_proba res ! nat (prediction res))"
proof (intro conjI iffI impI)
  assume "invoke m df = (tr, Inr res)"
  then show "\<exists>labels probas.
         predict m df = Inr labels \<and> py_index labels 0 = Inr (prediction res)
         \<and> predict_proba m df = Inr probas \<and> py_index probas 0 = Inr (pred_proba res)
         \<and> py_index (pred_proba res) (prediction res) = Inr (confidence res)
         \<and> tr = [Model_call Predict df, Model_call PredictProba df]"
    by (rule invoke_Inr)
next
  assume "\<exists>labels probas.
         predict m df = Inr labels \<and> py_index labels 0 = Inr (prediction res)
         \<and> predict_proba m df = Inr probas \<and> py_index probas 0 = Inr (pred_proba res)
         \<and> py_index (pred_proba res) (prediction res) = Inr (confidence res)
         \<and> tr = [Model_call Predict df, Model_call PredictProba df]"
  then obtain labels probas where
    "predict m df = Inr labels" "py_index labels 0 = Inr (prediction res)"
    "predict_proba m df = Inr probas" "py_index probas 0 = Inr (pred_proba res)"
    "py_index (pred_proba res) (prediction res) = Inr (confidence res)"
    and tr: "tr = [Model_call Predict df, Model_call PredictProba df]" by blast
  from invoke_complete [OF this(1-5)] tr show "invoke m df = (tr, Inr res)" by simp
next
  assume "invoke m df = (tr, Inr res) \<and> 0 \<le> prediction res"
  then have "py_index (pred_proba res) (prediction res) = Inr (confidence res)"
    and "0 \<le> prediction res"
    using invoke_Inr [of m df tr res] by auto
  then show "confidence res = pred_proba res ! nat (prediction res)"
    by (auto simp: py_index_def Let_def split: if_splits)
qed

theorem confidence_at_predicted_index_witness:
  "invoke contrary_classifier (input_df default_request)
     = ([Model_call Predict (input_df default_request),
         Model_call PredictProba (input_df default_request)],
        Inr \<lparr>prediction = 1, pred_proba = [Fin (7 / 10), Fin (3 / 10)],
             confidence = Fin (3 / 10)\<rparr>)
   \<and> predict contrary_classifier (input_df default_request) = Inr [1]
   \<and> predict_proba contrary_classifier (input_df default_request)
       = Inr [[Fin (7 / 10), Fin (3 / 10)]]
   \<and> Fin (3 / 10) = [Fin (7 / 10), Fin (3 / 10)] ! nat 1
   \<and> Fin (3 / 10) \<noteq> Fin (max (7 / 10) (3 / 10))"
  using confidence_at_predicted_index [of contrary_classifier "input_df default_request"
      "[Model_call Predict (input_df default_request),
        Model_call PredictProba (input_df default_request)]"
      "\<lparr>prediction = 1, pred_proba = [Fin (7 / 10), Fin (3 / 10)],
        confidence = Fin (3 / 10)\<rparr>"]
  by (simp add: contrary_classifier_def py_index_def)

subsection \<open>The two decisions on the label\<close>

text \<open>
  C9. For a result whose label is 0 or 1, what is rendered agrees on the label: the
  report offered for download is the one built from the result, the risk-present branch
  (chosen by \<open>prediction == 1\<close>) is rendered exactly when that report, whose label is
  chosen by the truth value of \<open>prediction\<close>, says DR Present, the risk-absent branch
  exactly when it says No DR, and exactly one of the two branches is rendered.
\<close>

theorem label_decisions_agree:
  "prediction res = 0 \<or> prediction res = 1 \<Longrightarrow>
     downloads (render th res dm)
       = [(report (prediction res) (confidence res) dm, ''dr_prediction_report.txt'')]
     \<and> (risk_present_branch (render th res dm) \<longleftrightarrow> prediction res = 1)
     \<and> (risk_present_branch (render th res dm)
          \<longleftrightarrow> (\<exists>rest. report (prediction res) (confidence res) dm
                        = nl @ ''Prediction: DR Present'' @ nl @ rest))
     \<and> (risk_absent_branch (render th res dm)
          \<longleftrightarrow> (\<exists>rest. report (prediction res) (confidence res) dm
                        = nl @ ''Prediction: No DR'' @ nl @ rest))
     \<and> (risk_present_branch (render th res dm) \<noteq> risk_absent_branch (render th res dm))"
  by (auto simp: render_def result_message_def report_def label_text_def nl_def
      risk_present_branch_def risk_absent_branch_def)

theorem label_decisions_agree_witness:
  "(prediction contrary_result = 0 \<or> prediction contrary_result = 1)
   \<and> downloads (render None contrary_result default_metrics)
       = [(report (prediction contrary_result) (confidence contrary_result) default_metrics,
           ''dr_prediction_report.txt'')]
   \<and> risk_present_branch (render None contrary_result default_metrics)
   \<and> \<not> risk_absent_branch (render None contrary_result default_metrics)
   \<and> (\<exists>rest. report (prediction contrary_result) (confidence contrary_result)
          default_metrics = nl @ ''Prediction: DR Present'' @ nl @ rest)"
proof -
  have one: "prediction contrary_result = 1" by (simp add: contrary_result_def)
  then have h: "prediction contrary_result = 0 \<or> prediction contrary_result = 1" by simp
  from label_decisions_agree [OF h, of None default_metrics] h one show ?thesis by blast
qed

subsection \<open>Calls to the classifier\<close>

lemma model_calls_append: "model_calls (xs @ ys) = model_calls xs @ model_calls ys"
  by (induction xs rule: model_calls.induct) simp_all

lemma fst_and_then:
  "fst (and_then s f) = (case snd s of Inl e \<Rightarrow> fst s | Inr a \<Rightarrow> fst s @ fst (f a))"
  by (simp add: and_then_def split: prod.splits sum.splits)


lemma quiet_and_then:
  "model_calls (fst s) = [] \<Longrightarrow> (\<And>a. model_calls (fst (f a)) = []) \<Longrightarrow>
     model_calls (fst (and_then s f)) = []"
  by (simp add: fst_and_then model_calls_append split: sum.splits)

lemma quiet_load_lottie_url: "model_calls (fst (load_lottie_url g url)) = []"
  by (simp add: load_lottie_url_def split: http_outcome.splits http_body.splits)

lemma quiet_load_all: "model_calls (fst (load_all g us)) = []"
  by (induction us) (simp_all add: quiet_and_then quiet_load_lottie_url)

lemma quiet_show_animation: "model_calls (fst (show_animation col as i)) = []"
  by (simp add: show_animation_def quiet_and_then lift_def emit_def)

lemma quiet_animation_section: "model_calls (fst (animation_section g)) = []"
  by (simp add: animation_section_def quiet_and_then quiet_load_all quiet_show_animation emit_def)

lemma quiet_render: "model_calls (render th res dm) = []"
  by (simp add: render_def result_message_def model_calls_append)

lemma invoke_calls:
  "model_calls (fst (invoke m df)) = [(Predict, df)]
   \<or> model_calls (fst (invoke m df)) = [(Predict, df), (PredictProba, df)]"
  by (simp add: invoke_def fst_and_then lift_def model_calls_append split: sum.splits)


lemma prediction_section_calls:
  "model_calls (fst (prediction_section w m r)) = model_calls (fst (invoke m (input_df r)))"
  by (simp add: prediction_section_def fst_and_then lift_def emit_def model_calls_append quiet_render split: sum.splits)


lemma run_calls:
  assumes "input_form w = ([Static Form_header], Inr r)"
  shows "model_calls (fst (run w)) = []
    \<or> (submitted w \<and> (\<exists>m. model_calls (fst (run w)) = model_calls (fst (prediction_section w m r))))"
  using assms quiet_animation_section [of "http w"]
  by (auto simp: run_def fst_and_then lift_def emit_def model_calls_append split: sum.splits)


subsection \<open>Input collector\<close>

lemma commit_in_bounds:
  "lo \<le> cur \<Longrightarrow> cur \<le> hi \<Longrightarrow>
     lo \<le> commit p lo hi cur x \<and> commit p lo hi cur x \<le> hi"
  by (cases p) (auto simp: commit_def)

lemma foldl_commit_in_bounds:
  "lo \<le> cur \<Longrightarrow> cur \<le> hi \<Longrightarrow>
     lo \<le> foldl (commit p lo hi) cur xs \<and> foldl (commit p lo hi) cur xs \<le> hi"
proof (induction xs arbitrary: cur)
  case Nil
  then show ?case by simp
next
  case (Cons x xs)
  from commit_in_bounds [OF Cons.prems, of p x] show ?case
    by (simp add: Cons.IH)
qed

lemma number_input_in_bounds:
  "lo \<le> v \<Longrightarrow> v \<le> hi \<Longrightarrow>
     \<exists>y. number_input p lo hi v xs = Inr y \<and> lo \<le> y \<and> y \<le> hi"
  using foldl_commit_in_bounds [of lo v hi p xs] by (auto simp: number_input_def)

lemma input_form_in_domain:
  "\<exists>r. input_form w = ([Static Form_header], Inr r) \<and> in_domain r"
proof -
  obtain a where a: "number_input (front_end w) 30 105 50 (age_typed w) = Inr a"
      "30 \<le> a" "a \<le> 105"
    using number_input_in_bounds [of "30::int" 50 105 "front_end w" "age_typed w"] by auto
  obtain s where s: "number_input (front_end w) 70 130 120 (systolic_typed w) = Inr s"
      "70 \<le> s" "s \<le> 130"
    using number_input_in_bounds [of "70::rat" 120 130 "front_end w" "systolic_typed w"]
    by auto
  obtain c where c: "number_input (front_end w) 70 130 90 (cholesterol_typed w) = Inr c"
      "70 \<le> c" "c \<le> 130"
    using number_input_in_bounds [of "70::rat" 90 130 "front_end w" "cholesterol_typed w"]
    by auto
  obtain d where d: "number_input (front_end w) 60 120 80 (diastolic_typed w) = Inr d"
      "60 \<le> d" "d \<le> 120"
    using number_input_in_bounds [of "60::rat" 80 120 "front_end w" "diastolic_typed w"]
    by auto
  show ?thesis
    using a s c d
    by (simp add: input_form_def and_then_def emit_def lift_def in_domain_def in_range_def)
qed

lemma input_form_age:
  "\<exists>r. input_form w = ([Static Form_header], Inr r)
     \<and> number_input (front_end w) 30 105 50 (age_typed w) = Inr (age r) \<and> in_domain r"
proof -
  obtain a where a: "number_input (front_end w) 30 105 50 (age_typed w) = Inr a"
      "30 \<le> a" "a \<le> 105"
    using number_input_in_bounds [of "30::int" 50 105 "front_end w" "age_typed w"] by auto
  obtain s where s: "number_input (front_end w) 70 130 120 (systolic_typed w) = Inr s"
      "70 \<le> s" "s \<le> 130"
    using number_input_in_bounds [of "70::rat" 120 130 "front_end w" "systolic_typed w"]
    by auto
  obtain c where c: "number_input (front_end w) 70 130 90 (cholesterol_typed w) = Inr c"
      "70 \<le> c" "c \<le> 130"
    using number_input_in_bounds [of "70::rat" 90 130 "front_end w" "cholesterol_typed w"]
    by auto
  obtain d where d: "number_input (front_end w) 60 120 80 (diastolic_typed w) = Inr d"
      "60 \<le> d" "d \<le> 120"
    using number_input_in_bounds [of "60::rat" 80 120 "front_end w" "diastolic_typed w"]
    by auto
  show ?thesis
    using a s c d
    by (simp add: input_form_def and_then_def emit_def lift_def in_domain_def in_range_def)
qed

lemma number_input_last:
  "lo \<le> v \<Longrightarrow> v \<le> hi \<Longrightarrow> lo \<le> x \<Longrightarrow> x \<le> hi \<Longrightarrow>
     number_input p lo hi v (xs @ [x]) = Inr x"
  by (auto simp: number_input_def commit_def)

lemma input_form_accepts:
  assumes "30 \<le> a" "a \<le> 105" "70 \<le> s" "s \<le> 130" "70 \<le> c" "c \<le> 130"
    "60 \<le> d" "d \<le> 120"
  shows "input_form (w\<lparr>age_typed := xa @ [a], systolic_typed := xs @ [s],
        cholesterol_typed := xc @ [c], diastolic_typed := xd @ [d]\<rparr>)
     = ([Static Form_header],
        Inr \<lparr>age = a, systolic_bp = Fin s, diastolic_bp = Fin d, cholesterol = Fin c\<rparr>)"
  using assms
  by (simp add: input_form_def and_then_def emit_def lift_def number_input_last)

lemma age_entry:
  "\<exists>r. input_form (w\<lparr>age_typed := [x]\<rparr>) = ([Static Form_header], Inr r)
     \<and> number_input (front_end w) 30 105 50 [x] = Inr (age r)"
  using input_form_age [of "w\<lparr>age_typed := [x]\<rparr>"] by auto

lemma run_calls_subset:
  assumes "input_form w = ([Static Form_header], Inr r)"
  shows "set (model_calls (fst (run w)))
      \<subseteq> {(Predict, input_df r), (PredictProba, input_df r)}"
proof -
  from run_calls [OF assms] show ?thesis
  proof
    assume "model_calls (fst (run w)) = []"
    then show ?thesis by simp
  next
    assume "submitted w \<and> (\<exists>m. model_calls (fst (run w))
        = model_calls (fst (prediction_section w m r)))"
    then obtain m where
      "model_calls (fst (run w)) = model_calls (fst (invoke m (input_df r)))"
      by (auto simp: prediction_section_calls)
    with invoke_calls [of m "input_df r"] show ?thesis by auto
  qed
qed

text \<open>
  C6. Whatever the operator entered, the form yields a request, that request lies in
  the domains of the four fields, and every call that the run makes to the classifier
  carries the frame of that request: no request outside the domains reaches the invoker.
  With nothing entered the request is that of the defaults (age 50, systolic 120.0,
  cholesterol 90.0, diastolic 80.0). Entries inside the domains are accepted: the form
  yields the last entry of each widget. For the age widget an entry of 30 or of 105
  becomes the age of the request, an entry of 29 or of 106 does not: the age stays 50
  when the front end rejects, and moves to the violated bound when it clamps.
\<close>

theorem input_collector_enforces_domains:
  "(\<exists>r. input_form w = ([Static Form_header], Inr r) \<and> in_domain r
        \<and> set (model_calls (fst (run w)))
            \<subseteq> {(Predict, input_df r), (PredictProba, input_df r)})
   \<and> input_form (w\<lparr>age_typed := [], systolic_typed := [], cholesterol_typed := [],
        diastolic_typed := []\<rparr>) = ([Static Form_header], Inr default_request)
   \<and> (30 \<le> a \<and> a \<le> 105 \<and> 70 \<le> s \<and> s \<le> 130 \<and> 70 \<le> c \<and> c \<le> 130
        \<and> 60 \<le> d \<and> d \<le> 120
        \<longrightarrow> input_form (w\<lparr>age_typed := xa @ [a], systolic_typed := xs @ [s],
                cholesterol_typed := xc @ [c], diastolic_typed := xd @ [d]\<rparr>)
             = ([Static Form_header],
                Inr \<lparr>age = a, systolic_bp = Fin s, diastolic_bp = Fin d,
                     cholesterol = Fin c\<rparr>))
   \<and> (\<exists>r. input_form (w\<lparr>age_typed := [30]\<rparr>) = ([Static Form_header], Inr r)
          \<and> age r = 30)
   \<and> (\<exists>r. input_form (w\<lparr>age_typed := [105]\<rparr>) = ([Static Form_header], Inr r)
          \<and> age r = 105)
   \<and> (\<exists>r. input_form (w\<lparr>age_typed := [29]\<rparr>) = ([Static Form_header], Inr r)
          \<and> age r = (case front_end w of Reject \<Rightarrow> 50 | Clamp \<Rightarrow> 30))
   \<and> (\<exists>r. input_form (w\<lparr>age_typed := [106]\<rparr>) = ([Static Form_header], Inr r)
          \<and> age r = (case front_end w of Reject \<Rightarrow> 50 | Clamp \<Rightarrow> 105))"
proof -
  have reach: "\<exists>r. input_form w = ([Static Form_header], Inr r) \<and> in_domain r
        \<and> set (model_calls (fst (run w)))
            \<subseteq> {(Predict, input_df r), (PredictProba, input_df r)}"
    using input_form_in_domain [of w] run_calls_subset [of w] by blast
  have defaults: "input_form (w\<lparr>age_typed := [], systolic_typed := [],
        cholesterol_typed := [], diastolic_typed := []\<rparr>)
      = ([Static Form_header], Inr default_request)"
    by (simp add: input_form_def and_then_def emit_def lift_def number_input_def
        default_request_def)
  have accepts: "input_form (w\<lparr>age_typed := xa @ [a], systolic_typed := xs @ [s],
                cholesterol_typed := xc @ [c], diastolic_typed := xd @ [d]\<rparr>)
             = ([Static Form_header],
                Inr \<lparr>age = a, systolic_bp = Fin s, diastolic_bp = Fin d,
                     cholesterol = Fin c\<rparr>)"
    if "30 \<le> a \<and> a \<le> 105 \<and> 70 \<le> s \<and> s \<le> 130 \<and> 70 \<le> c \<and> c \<le> 130
        \<and> 60 \<le> d \<and> d \<le> 120"
    using that by (intro input_form_accepts) simp_all
  have e30: "\<exists>r. input_form (w\<lparr>age_typed := [30]\<rparr>) = ([Static Form_header], Inr r)
          \<and> age r = 30"
    using age_entry [where w = w and x = 30] by (auto simp: number_input_def commit_def)
  have e105: "\<exists>r. input_form (w\<lparr>age_typed := [105]\<rparr>) = ([Static Form_header], Inr r)
          \<and> age r = 105"
    using age_entry [where w = w and x = 105] by (auto simp: number_input_def commit_def)
  have e29: "\<exists>r. input_form (w\<lparr>age_typed := [29]\<rparr>) = ([Static Form_header], Inr r)
          \<and> age r = (case front_end w of Reject \<Rightarrow> 50 | Clamp \<Rightarrow> 30)"
    using age_entry [where w = w and x = 29]
    by (cases "front_end w") (auto simp: number_input_def commit_def)
  have e106: "\<exists>r. input_form (w\<lparr>age_typed := [106]\<rparr>) = ([Static Form_header], Inr r)
          \<and> age r = (case front_end w of Reject \<Rightarrow> 50 | Clamp \<Rightarrow> 105)"
    using age_entry [where w = w and x = 106]
    by (cases "front_end w") (auto simp: number_input_def commit_def)
  from reach defaults accepts e30 e105 e29 e106 show ?thesis by blast
qed

theorem input_collector_enforces_domains_witness:
  "((30::int) \<le> 105 \<and> (105::int) \<le> 105 \<and> (70::rat) \<le> 70 \<and> (70::rat) \<le> 130
      \<and> (70::rat) \<le> 130 \<and> (130::rat) \<le> 130 \<and> (60::rat) \<le> 120 \<and> (120::rat) \<le> 120)
   \<and> input_form (example_world\<lparr>age_typed := [29] @ [105], systolic_typed := [] @ [70],
        cholesterol_typed := [200] @ [130], diastolic_typed := [] @ [120]\<rparr>)
      = ([Static Form_header],
         Inr \<lparr>age = 105, systolic_bp = Fin 70, diastolic_bp = Fin 120,
              cholesterol = Fin 130\<rparr>)"
  using input_collector_enforces_domains [where w = example_world and a = 105
      and s = 70 and c = 130 and d = 120 and xa = "[29]" and xs = "[]"
      and xc = "[200]" and xd = "[]"]
  by simp

subsection \<open>Rounding\<close>

lemma pow2_powi: "pow2 e = power_int 2 e"
  by (simp add: pow2_def power_int_def inverse_eq_divide power_one_over)

lemma pow2_pos: "0 < pow2 e"
  by (simp add: pow2_powi)

lemma pow2_less_iff: "pow2 a < pow2 b \<longleftrightarrow> a < b"
proof
  assume "pow2 a < pow2 b"
  show "a < b"
  proof (rule ccontr)
    assume "\<not> a < b"
    then have "b \<le> a" by simp
    then have "pow2 b \<le> pow2 a"
      unfolding pow2_powi by (intro power_int_increasing) simp_all
    with \<open>pow2 a < pow2 b\<close> show False by simp
  qed
next
  assume "a < b"
  then show "pow2 a < pow2 b"
    unfolding pow2_powi by (intro power_int_strict_increasing) simp_all
qed

lemma ilog2_le:
  assumes "0 < a"
  shows "pow2 (ilog2 a) \<le> a"
proof (cases "1 \<le> a")
  case True
  then have pos: "0 < \<lfloor>a\<rfloor>" by simp
  from bitlen_bounds [OF pos] have "2 ^ nat (bitlen \<lfloor>a\<rfloor> - 1) \<le> \<lfloor>a\<rfloor>" by simp
  then have "(of_int (2 ^ nat (bitlen \<lfloor>a\<rfloor> - 1)) :: rat) \<le> of_int \<lfloor>a\<rfloor>"
    by (simp only: of_int_le_iff)
  also have "\<dots> \<le> a" by simp
  finally have "(2::rat) ^ nat (bitlen \<lfloor>a\<rfloor> - 1) \<le> a" by simp
  moreover have "0 \<le> bitlen \<lfloor>a\<rfloor> - 1"
    using pos by (simp add: bitlen_alt_def)
  ultimately show ?thesis using True by (simp add: ilog2_def pow2_def)
next
  case False
  define n where "n = \<lceil>1 / a\<rceil> - 1"
  from False assms have "1 < 1 / a" by simp
  then have "1 < \<lceil>1 / a\<rceil>" by (simp add: less_ceiling_iff)
  then have npos: "0 < n" by (simp add: n_def)
  from bitlen_bounds [OF npos] have "n < 2 ^ nat (bitlen n)" by simp
  then have le: "\<lceil>1 / a\<rceil> \<le> 2 ^ nat (bitlen n)" by (simp add: n_def)
  have "1 / a \<le> of_int \<lceil>1 / a\<rceil>" by (rule le_of_int_ceiling)
  also have "\<dots> \<le> of_int (2 ^ nat (bitlen n))"
    using le by (simp only: of_int_le_iff)
  also have "\<dots> = 2 ^ nat (bitlen n)" by simp
  finally have "1 / a \<le> 2 ^ nat (bitlen n)" .
  then have "1 / 2 ^ nat (bitlen n) \<le> a"
    using assms by (simp add: field_simps)
  moreover have "0 < bitlen n" using npos by (simp add: bitlen_alt_def)
  ultimately show ?thesis using False by (simp add: ilog2_def pow2_def n_def)
qed

lemma round_half_even_le: "x \<le> of_int n \<Longrightarrow> round_half_even x \<le> n"
  unfolding round_half_even_def Let_def
  by (auto simp: floor_le_iff le_floor_iff)

lemma round_half_even_ge:
  assumes "of_int n \<le> x"
  shows "n \<le> round_half_even x"
proof -
  have "n \<le> \<lfloor>x\<rfloor>" using assms by (simp add: le_floor_iff)
  then show ?thesis unfolding round_half_even_def Let_def by simp
qed

lemma exponent_nonpos:
  assumes "0 < q" "q \<le> of_int b" "b < 2 ^ 53"
  shows "max (ilog2 q - 52) (- 1074) \<le> 0"
proof -
  have "pow2 (ilog2 q) \<le> q" using assms(1) by (rule ilog2_le)
  also have "q \<le> of_int b" by fact
  also have "(of_int b :: rat) < of_int (2 ^ 53)" using assms(3) by (simp only: of_int_less_iff)
  also have "(of_int (2 ^ 53) :: rat) = pow2 53" by (simp add: pow2_def)
  finally have "ilog2 q < 53" by (simp only: pow2_less_iff)
  then show ?thesis by simp
qed

lemma fl_round_between:
  assumes "0 < q" "0 \<le> a" "of_int a \<le> q" "q \<le> of_int b" "b < 2 ^ 53"
  shows "\<exists>r. fl_round q = Fin r \<and> of_int a \<le> r \<and> r \<le> of_int b"
proof -
  define e where "e = max (ilog2 q - 52) (- 1074)"
  define k where "k = nat (- e)"
  define m where "m = round_half_even (q * 2 ^ k)"
  define r where "r = (of_int m :: rat) / 2 ^ k"
  have e: "e \<le> 0" unfolding e_def using assms(1,4,5) by (rule exponent_nonpos)
  then have p: "pow2 e = 1 / 2 ^ k"
    by (cases "e = 0") (simp_all add: pow2_def k_def)
  have "q * 2 ^ k \<le> of_int (b * 2 ^ k)" using assms(4) by simp
  then have mb: "m \<le> b * 2 ^ k" unfolding m_def by (rule round_half_even_le)
  have "of_int (a * 2 ^ k) \<le> q * 2 ^ k" using assms(3) by simp
  then have ma: "a * 2 ^ k \<le> m" unfolding m_def by (rule round_half_even_ge)
  have "(of_int m :: rat) \<le> of_int (b * 2 ^ k)" using mb by (simp only: of_int_le_iff)
  then have rb: "r \<le> of_int b" by (simp add: r_def field_simps)
  have "(of_int (a * 2 ^ k) :: rat) \<le> of_int m" using ma by (simp only: of_int_le_iff)
  then have ra: "of_int a \<le> r" by (simp add: r_def field_simps)
  have "(of_int b :: rat) < of_int (2 ^ 53)" using assms(5) by (simp only: of_int_less_iff)
  also have "(of_int (2 ^ 53) :: rat) \<le> 2 ^ 1024" by simp
  finally have "r < 2 ^ 1024" using rb by simp
  then have no: "\<not> pow2 1024 \<le> r" by (simp add: pow2_def)
  have a0: "a = 0" if "m = 0" using ma that assms(2)
    by (simp add: mult_le_0_iff)
  have "fl_round q = (if m = 0 then Fin 0 else Fin r)"
    using assms(1) no
    by (simp add: fl_round_def Let_def e_def [symmetric] p m_def [symmetric] r_def [symmetric])
  then show ?thesis using ra rb a0 by (cases "m = 0") (auto simp: r_def)
qed

lemma pow2_nonzero: "pow2 e \<noteq> 0"
  using pow2_pos [of e] by simp

lemma fl_round_neg: "q < 0 \<Longrightarrow> fl_round q = py_neg (fl_round (- q))"
  by (simp add: fl_round_def Let_def pow2_nonzero)

lemma py_float_exact: "0 < n \<Longrightarrow> n < 2 ^ 53 \<Longrightarrow> py_float n = Fin (of_int n)"
  using fl_round_between [of "of_int n" n n] by (auto simp: py_float_def)

subsection \<open>Derived metrics in the domains\<close>

lemma fl_round_finite_range:
  assumes "- of_int a \<le> q" "q \<le> of_int b" "0 \<le> a" "0 \<le> b" "a < 2 ^ 53" "b < 2 ^ 53"
  shows "is_finite (fl_round q) \<and> - of_int a \<le> fval (fl_round q) \<and> fval (fl_round q) \<le> of_int b"
proof -
  consider "q = 0" | "0 < q" | "q < 0" by linarith
  then show ?thesis
  proof cases
    case 1
    then show ?thesis using assms by (simp add: fl_round_def)
  next
    case 2
    from fl_round_between [OF 2 _ _ assms(2) assms(6), of 0] 2 obtain r where
      "fl_round q = Fin r" "0 \<le> r" "r \<le> of_int b" by auto
    then show ?thesis using assms(3) by simp
  next
    case 3
    then have "0 < - q" "- q \<le> of_int a" using assms(1) by simp_all
    from fl_round_between [OF this(1) _ _ this(2) assms(5), of 0] \<open>0 < - q\<close> obtain r where
      r: "fl_round (- q) = Fin r" "0 \<le> r" "r \<le> of_int a" by auto
    show ?thesis using r assms(4) by (simp add: fl_round_neg [OF 3])
  qed
qed

lemma pulse_pressure_range:
  assumes "70 \<le> s" "s \<le> 130" "60 \<le> d" "d \<le> 120"
  shows "is_finite (py_sub (Fin s) (Fin d)) \<and> - 50 \<le> fval (py_sub (Fin s) (Fin d))
     \<and> fval (py_sub (Fin s) (Fin d)) \<le> 70"
proof -
  have "py_sub (Fin s) (Fin d) = fl_round (s - d)"
    using assms by (simp add: py_sub_def py_add_def)
  moreover have "- of_int 50 \<le> s - d" "s - d \<le> of_int 70" using assms by simp_all
  from fl_round_finite_range [OF this] have
    "is_finite (fl_round (s - d)) \<and> - 50 \<le> fval (fl_round (s - d)) \<and> fval (fl_round (s - d)) \<le> 70"
    by simp
  ultimately show ?thesis by simp
qed

lemma mean_arterial_pressure_range:
  assumes "70 \<le> s" "s \<le> 130" "60 \<le> d" "d \<le> 120"
  shows "\<exists>m. py_truediv (py_add (Fin s) (py_mul (py_float 2) (Fin d))) (py_float 3) = Inr (Fin m)
     \<and> 63 \<le> m \<and> m \<le> 124"
proof -
  have two: "py_float 2 = Fin 2" and three: "py_float 3 = Fin 3"
    using py_float_exact [of 2] py_float_exact [of 3] by simp_all
  have "0 < 2 * d" "of_int 120 \<le> 2 * d" "2 * d \<le> of_int 240" using assms by simp_all
  from fl_round_between [OF this(1) _ this(2,3)] obtain x where
    x: "fl_round (2 * d) = Fin x" "120 \<le> x" "x \<le> 240" by auto
  have mul: "py_mul (py_float 2) (Fin d) = Fin x"
    using assms x by (simp add: two py_mul_def)
  have "0 < s + x" "of_int 190 \<le> s + x" "s + x \<le> of_int 370" using assms x by simp_all
  from fl_round_between [OF this(1) _ this(2,3)] obtain y where
    y: "fl_round (s + x) = Fin y" "190 \<le> y" "y \<le> 370" by auto
  have add: "py_add (Fin s) (Fin x) = Fin y"
    using y by (simp add: py_add_def)
  have "0 < y / 3" "of_int 63 \<le> y / 3" "y / 3 \<le> of_int 124" using y by simp_all
  from fl_round_between [OF this(1) _ this(2,3)] obtain m where
    m: "fl_round (y / 3) = Fin m" "63 \<le> m" "m \<le> 124" by auto
  have "py_truediv (Fin y) (Fin 3) = Inr (Fin m)"
    using y m by (simp add: py_truediv_def)
  then show ?thesis using m by (simp add: mul add three)
qed

subsection \<open>Runs that complete\<close>

lemma fl_round_int: "0 < n \<Longrightarrow> n < 2 ^ 53 \<Longrightarrow> fl_round (of_int n) = Fin (of_int n)"
  using py_float_exact [of n] by (simp add: py_float_def)

lemma map_120_80: "fl_round (280 / 3) = Fin (6567749456581973 / 70368744177664)"
  by code_simp

lemma derived_120_80: "derived (Fin 120) (Fin 80) = Inr default_metrics"
proof -
  have two: "py_float 2 = Fin 2" and three: "py_float 3 = Fin 3"
    using py_float_exact [of 2] py_float_exact [of 3] by simp_all
  have "py_mul (Fin 2) (Fin 80) = Fin 160"
    using fl_round_int [of 160] by (simp add: py_mul_def)
  moreover have "py_add (Fin 120) (Fin 160) = Fin 280"
    using fl_round_int [of 280] by (simp add: py_add_def)
  moreover have "py_truediv (Fin 280) (Fin 3) = Inr (Fin (6567749456581973 / 70368744177664))"
    by (simp add: py_truediv_def map_120_80)
  moreover have "py_sub (Fin 120) (Fin 80) = Fin 40"
    using fl_round_int [of 40] by (simp add: py_sub_def py_add_def)
  ultimately show ?thesis
    by (simp add: derived_def two three default_metrics_def)
qed

lemma animations_not_found:
  "animation_section (\<lambda>url. Response 404 NotJson)
     = ([Static Welcome_heading, Http_get (urls ! 0), Http_get (urls ! 1),
         St_warning 1, St_warning 2], Inr ())"
  by (simp add: animation_section_def urls_def load_lottie_url_def show_animation_def
      and_then_def emit_def lift_def py_index_def)

lemma run_completes:
  assumes "artifact w = Inr m"
    and "animation_section (http w) = (tra, Inr ())"
    and "input_form w = (trf, Inr r)"
    and "submitted w"
    and "invoke m (input_df r) = (tri, Inr res)"
    and "derived (systolic_bp r) (diastolic_bp r) = Inr dm"
  shows "run w = ([Static Page_config, Static Css, Static App_title, Static App_intro]
      @ tra @ [Static Sidebar] @ trf @ tri @ render (theme_base w) res dm
      @ [Static Footer], Inr ())"
  using assms by (simp add: run_def prediction_section_def and_then_def lift_def emit_def)

lemma input_form_example:
  "input_form example_world = ([Static Form_header], Inr default_request)"
  by (simp add: input_form_def example_world_def and_then_def emit_def lift_def
      number_input_def default_request_def)

lemma invoke_example:
  "invoke contrary_classifier (input_df r)
     = ([Model_call Predict (input_df r), Model_call PredictProba (input_df r)],
        Inr contrary_result)"
  by (simp add: invoke_def contrary_classifier_def contrary_result_def and_then_def
      lift_def py_index_def)

lemma run_example:
  "run example_world
     = ([Static Page_config, Static Css, Static App_title, Static App_intro,
         Static Welcome_heading, Http_get (urls ! 0), Http_get (urls ! 1),
         St_warning 1, St_warning 2, Static Sidebar, Static Form_header,
         Model_call Predict (input_df default_request),
         Model_call PredictProba (input_df default_request)]
        @ render None contrary_result default_metrics @ [Static Footer], Inr ())"
proof -
  have "run example_world = ([Static Page_config, Static Css, Static App_title, Static App_intro]
      @ [Static Welcome_heading, Http_get (urls ! 0), Http_get (urls ! 1),
         St_warning 1, St_warning 2] @ [Static Sidebar] @ [Static Form_header]
      @ [Model_call Predict (input_df default_request),
         Model_call PredictProba (input_df default_request)]
      @ render (theme_base example_world) contrary_result default_metrics
      @ [Static Footer], Inr ())"
  proof (rule run_completes)
    show "artifact example_world = Inr contrary_classifier" by (simp add: example_world_def)
    show "animation_section (http example_world)
        = ([Static Welcome_heading, Http_get (urls ! 0), Http_get (urls ! 1),
         St_warning 1, St_warning 2], Inr ())"
      using animations_not_found by (simp add: example_world_def)
    show "input_form example_world = ([Static Form_header], Inr default_request)"
      by (rule input_form_example)
    show "submitted example_world" by (simp add: example_world_def)
    show "invoke contrary_classifier (input_df default_request)
        = ([Model_call Predict (input_df default_request),
         Model_call PredictProba (input_df default_request)], Inr contrary_result)"
      by (rule invoke_example)
    show "derived (systolic_bp default_request) (diastolic_bp default_request)
        = Inr default_metrics"
      using derived_120_80 by (simp add: default_request_def)
  qed
  then show ?thesis by (simp add: example_world_def)
qed

subsection \<open>What the classifier receives\<close>



subsection \<open>Derived metrics\<close>

lemma py_sub_finite: "py_sub (Fin x) (Fin y) = fl_round (x - y)"
  by (simp add: py_sub_def py_add_def)

lemma mean_arterial_pressure_formula:
  assumes "70 \<le> s" "s \<le> 130" "60 \<le> d" "d \<le> 120"
  shows "py_truediv (py_add (Fin s) (py_mul (py_float 2) (Fin d))) (py_float 3)
     = Inr (fl_round (fval (fl_round (s + fval (fl_round (2 * d)))) / 3))"
proof -
  have two: "py_float 2 = Fin 2" and three: "py_float 3 = Fin 3"
    using py_float_exact [of 2] py_float_exact [of 3] by simp_all
  have "0 < 2 * d" "of_int 120 \<le> 2 * d" "2 * d \<le> of_int 240" using assms by simp_all
  from fl_round_between [OF this(1) _ this(2,3)] obtain x where
    x: "fl_round (2 * d) = Fin x" "120 \<le> x" "x \<le> 240" by auto
  have mul: "py_mul (py_float 2) (Fin d) = Fin x"
    using assms x by (simp add: two py_mul_def)
  have "0 < s + x" "of_int 190 \<le> s + x" "s + x \<le> of_int 370" using assms x by simp_all
  from fl_round_between [OF this(1) _ this(2,3)] obtain y where
    y: "fl_round (s + x) = Fin y" "190 \<le> y" "y \<le> 370" by auto
  have add: "py_add (Fin s) (Fin x) = Fin y"
    using y by (simp add: py_add_def)
  have "py_truediv (Fin y) (Fin 3) = Inr (fl_round (y / 3))"
    using y by (simp add: py_truediv_def)
  then show ?thesis using x y by (simp add: mul add three)
qed

lemma derived_total:
  "\<exists>m. py_truediv (py_add s (py_mul (py_float 2) d)) (py_float 3) = Inr m
     \<and> derived s d = Inr \<lparr>pulse_pressure = py_sub s d, mean_arterial_pressure = m\<rparr>"
proof -
  have "py_float 3 = Fin 3" using py_float_exact [of 3] by simp
  then obtain m where
    "py_truediv (py_add s (py_mul (py_float 2) d)) (py_float 3) = Inr m"
    by (simp add: py_truediv_def)
  then show ?thesis by (simp add: derived_def)
qed

lemma fmt_40: "fmt_2f (Fin 40) = ''40.00''"
  by code_simp

lemma fmt_map_120_80: "fmt_2f (Fin (6567749456581973 / 70368744177664)) = ''93.33''"
  by code_simp

lemma derived_box_shows:
  "\<exists>pre mid post. derived_box th dm
     = pre @ ''<b>Pulse Pressure:</b> '' @ fmt_2f (pulse_pressure dm) @ '' mmHg<br>''
       @ mid @ ''<b>Mean Arterial Pressure:</b> '' @ fmt_2f (mean_arterial_pressure dm)
       @ '' mmHg'' @ post"
proof -
  define pre where "pre = nl @ ''        <div style='' @ apostrophe
         @ nl @ ''            padding: 10px;''
         @ nl @ ''            background-color: ''
         @ (if th = Some ''dark'' then ''#2b2b2b'' else ''#f0f0f5'') @ '';''
         @ nl @ ''            color: ''
         @ (if th = Some ''dark'' then ''#ffffff'' else ''#000000'') @ '';''
         @ nl @ ''            border-radius: 10px;''
         @ nl @ ''            margin-top: 10px;''
         @ nl @ ''        '' @ apostrophe @ ''>''
         @ nl @ ''            ''"
  have "derived_box th dm
     = pre @ ''<b>Pulse Pressure:</b> '' @ fmt_2f (pulse_pressure dm) @ '' mmHg<br>''
       @ (nl @ ''            '') @ ''<b>Mean Arterial Pressure:</b> ''
       @ fmt_2f (mean_arterial_pressure dm)
       @ '' mmHg'' @ (nl @ ''        </div>'' @ nl @ ''    '')"
    by (simp add: derived_box_def pre_def Let_def)
  then show ?thesis by blast
qed

text \<open>
  C4. The calculator never raises: for all floats it returns the pulse pressure
  \<open>systolic_bp - diastolic_bp\<close> and the mean arterial pressure
  \<open>(systolic_bp + 2 * diastolic_bp) / 3\<close>, computed in float arithmetic. On finite
  operands the pulse pressure is the difference, rounded once; on operands in the domains
  of the form the mean arterial pressure is the formula with each of its three operations
  rounded. For systolic 120.0 and diastolic 80.0 the two values are 40.0 and
  93.33333333333333, which the box of derived metrics shows as 40.00 and 93.33.
\<close>

theorem derived_metrics_calculator:
  "(\<exists>m. py_truediv (py_add s (py_mul (py_float 2) d)) (py_float 3) = Inr m
        \<and> derived s d = Inr \<lparr>pulse_pressure = py_sub s d, mean_arterial_pressure = m\<rparr>)
   \<and> (\<exists>m. derived (Fin x) (Fin y)
          = Inr \<lparr>pulse_pressure = fl_round (x - y), mean_arterial_pressure = m\<rparr>)
   \<and> (70 \<le> x \<and> x \<le> 130 \<and> 60 \<le> y \<and> y \<le> 120
        \<longrightarrow> derived (Fin x) (Fin y)
            = Inr \<lparr>pulse_pressure = fl_round (x - y),
                   mean_arterial_pressure
                     = fl_round (fval (fl_round (x + fval (fl_round (2 * y)))) / 3)\<rparr>)
   \<and> derived (Fin 120) (Fin 80)
       = Inr \<lparr>pulse_pressure = Fin 40,
              mean_arterial_pressure = Fin (6567749456581973 / 70368744177664)\<rparr>
   \<and> fmt_2f (Fin 40) = ''40.00''
   \<and> fmt_2f (Fin (6567749456581973 / 70368744177664)) = ''93.33''
   \<and> (\<exists>pre mid post.
         derived_box th \<lparr>pulse_pressure = Fin 40,
              mean_arterial_pressure = Fin (6567749456581973 / 70368744177664)\<rparr>
           = pre @ ''<b>Pulse Pressure:</b> 40.00 mmHg<br>''
             @ mid @ ''<b>Mean Arterial Pressure:</b> 93.33 mmHg'' @ post)"
proof -
  have total: "\<exists>m. py_truediv (py_add s (py_mul (py_float 2) d)) (py_float 3) = Inr m
        \<and> derived s d = Inr \<lparr>pulse_pressure = py_sub s d, mean_arterial_pressure = m\<rparr>"
    by (rule derived_total)
  have pulse: "\<exists>m. derived (Fin x) (Fin y)
          = Inr \<lparr>pulse_pressure = fl_round (x - y), mean_arterial_pressure = m\<rparr>"
    using derived_total [of "Fin x" "Fin y"] by (auto simp: py_sub_finite)
  have formula: "derived (Fin x) (Fin y)
            = Inr \<lparr>pulse_pressure = fl_round (x - y),
                   mean_arterial_pressure
                     = fl_round (fval (fl_round (x + fval (fl_round (2 * y)))) / 3)\<rparr>"
    if "70 \<le> x \<and> x \<le> 130 \<and> 60 \<le> y \<and> y \<le> 120"
  proof -
    from that have "py_truediv (py_add (Fin x) (py_mul (py_float 2) (Fin y))) (py_float 3)
        = Inr (fl_round (fval (fl_round (x + fval (fl_round (2 * y)))) / 3))"
      by (intro mean_arterial_pressure_formula) simp_all
    then show ?thesis by (simp add: derived_def py_sub_finite)
  qed
  have example: "derived (Fin 120) (Fin 80)
       = Inr \<lparr>pulse_pressure = Fin 40,
              mean_arterial_pressure = Fin (6567749456581973 / 70368744177664)\<rparr>"
    using derived_120_80 by (simp add: default_metrics_def)
  have box: "\<exists>pre mid post.
         derived_box th \<lparr>pulse_pressure = Fin 40,
              mean_arterial_pressure = Fin (6567749456581973 / 70368744177664)\<rparr>
           = pre @ ''<b>Pulse Pressure:</b> 40.00 mmHg<br>''
             @ mid @ ''<b>Mean Arterial Pressure:</b> 93.33 mmHg'' @ post"
  proof -
    from derived_box_shows [of th "\<lparr>pulse_pressure = Fin 40,
              mean_arterial_pressure = Fin (6567749456581973 / 70368744177664)\<rparr>"]
    obtain pre mid post where "derived_box th \<lparr>pulse_pressure = Fin 40,
              mean_arterial_pressure = Fin (6567749456581973 / 70368744177664)\<rparr>
        = pre @ ''<b>Pulse Pressure:</b> '' @ ''40.00'' @ '' mmHg<br>''
          @ mid @ ''<b>Mean Arterial Pressure:</b> '' @ ''93.33'' @ '' mmHg'' @ post"
      by (auto simp: fmt_40 fmt_map_120_80)
    then have "derived_box th \<lparr>pulse_pressure = Fin 40,
              mean_arterial_pressure = Fin (6567749456581973 / 70368744177664)\<rparr>
        = pre @ ''<b>Pulse Pressure:</b> 40.00 mmHg<br>''
          @ mid @ ''<b>Mean Arterial Pressure:</b> 93.33 mmHg'' @ post"
      by simp
    then show ?thesis by blast
  qed
  from total pulse formula example fmt_40 fmt_map_120_80 box show ?thesis by blast
qed

theorem derived_metrics_calculator_witness:
  "((70::rat) \<le> 120 \<and> (120::rat) \<le> 130 \<and> (60::rat) \<le> 80 \<and> (80::rat) \<le> 120)
   \<and> derived (Fin 120) (Fin 80)
       = Inr \<lparr>pulse_pressure = fl_round (120 - 80),
              mean_arterial_pressure
                = fl_round (fval (fl_round (120 + fval (fl_round (2 * 80)))) / 3)\<rparr>"
  using derived_metrics_calculator [where x = 120 and y = 80]
  by simp

subsection \<open>Negative pulse pressure\<close>

lemma fl_round_neg_int:
  "0 < n \<Longrightarrow> n < 2 ^ 53 \<Longrightarrow> fl_round (- of_int n) = Fin (- of_int n)"
  using fl_round_neg [of "- of_int n"] fl_round_int [of n] by simp

lemma in_domain_low_pulse: "in_domain low_pulse_request"
  by (simp add: in_domain_def in_range_def low_pulse_request_def)

lemma input_form_low_pulse:
  "input_form low_pulse_world = ([Static Form_header], Inr low_pulse_request)"
  by (simp add: input_form_def low_pulse_world_def example_world_def and_then_def emit_def
      lift_def number_input_def commit_def low_pulse_request_def)

lemma derived_in_domain:
  assumes "in_domain r"
  shows "\<exists>dm. derived (systolic_bp r) (diastolic_bp r) = Inr dm
     \<and> is_finite (pulse_pressure dm) \<and> is_finite (mean_arterial_pressure dm)
     \<and> - 50 \<le> fval (pulse_pressure dm) \<and> fval (pulse_pressure dm) \<le> 70"
proof -
  from assms obtain s d where sd: "systolic_bp r = Fin s" "diastolic_bp r = Fin d"
    "70 \<le> s" "s \<le> 130" "60 \<le> d" "d \<le> 120"
    by (auto simp: in_domain_def in_range_def split: pyfloat.splits)
  from mean_arterial_pressure_range [OF sd(3-6)] obtain m where
    "py_truediv (py_add (Fin s) (py_mul (py_float 2) (Fin d))) (py_float 3) = Inr (Fin m)"
    by blast
  then have "derived (Fin s) (Fin d)
      = Inr \<lparr>pulse_pressure = py_sub (Fin s) (Fin d), mean_arterial_pressure = Fin m\<rparr>"
    by (simp add: derived_def)
  with pulse_pressure_range [OF sd(3-6)] show ?thesis by (simp add: sd(1,2))
qed

lemma prediction_section_renders:
  assumes "invoke m (input_df r) = (tri, Inr res)"
    and "derived (systolic_bp r) (diastolic_bp r) = Inr dm"
  shows "prediction_section w m r = (tri @ render (theme_base w) res dm, Inr ())"
  using assms by (simp add: prediction_section_def and_then_def lift_def emit_def)

lemma derived_low_pulse:
  "\<exists>mp. derived (Fin 70) (Fin 120)
     = Inr \<lparr>pulse_pressure = Fin (- 50), mean_arterial_pressure = mp\<rparr>"
  using derived_total [of "Fin 70" "Fin 120"] fl_round_neg_int [of 50]
  by (auto simp: py_sub_finite)

lemma derived_high_pulse:
  "\<exists>mp. derived (Fin 130) (Fin 60)
     = Inr \<lparr>pulse_pressure = Fin 70, mean_arterial_pressure = mp\<rparr>"
  using derived_total [of "Fin 130" "Fin 60"] fl_round_int [of 70]
  by (auto simp: py_sub_finite)

lemma fmt_minus_50: "fmt_2f (Fin (- 50)) = ''-50.00''"
  by code_simp

lemma run_low_pulse:
  assumes "derived (Fin 70) (Fin 120) = Inr dm"
  shows "run low_pulse_world
     = ([Static Page_config, Static Css, Static App_title, Static App_intro]
        @ [Static Welcome_heading, Http_get (urls ! 0), Http_get (urls ! 1),
           St_warning 1, St_warning 2]
        @ [Static Sidebar] @ [Static Form_header]
        @ [Model_call Predict (input_df low_pulse_request),
           Model_call PredictProba (input_df low_pulse_request)]
        @ render (theme_base low_pulse_world) contrary_result dm @ [Static Footer], Inr ())"
proof (rule run_completes)
  show "artifact low_pulse_world = Inr contrary_classifier"
    by (simp add: low_pulse_world_def example_world_def)
  show "animation_section (http low_pulse_world)
      = ([Static Welcome_heading, Http_get (urls ! 0), Http_get (urls ! 1),
       St_warning 1, St_warning 2], Inr ())"
    using animations_not_found by (simp add: low_pulse_world_def example_world_def)
  show "input_form low_pulse_world = ([Static Form_header], Inr low_pulse_request)"
    by (rule input_form_low_pulse)
  show "submitted low_pulse_world" by (simp add: low_pulse_world_def example_world_def)
  show "invoke contrary_classifier (input_df low_pulse_request)
      = ([Model_call Predict (input_df low_pulse_request),
       Model_call PredictProba (input_df low_pulse_request)], Inr contrary_result)"
    by (rule invoke_example)
  show "derived (systolic_bp low_pulse_request) (diastolic_bp low_pulse_request) = Inr dm"
    using assms by (simp add: low_pulse_request_def)
qed

text \<open>
  C10. For a request in the domains the calculator returns, the pulse pressure is finite
  and lies between -50 and 70, and once the classifier has answered the prediction section
  renders the result with these metrics and completes: no branch of the script tests the
  sign of the pulse pressure. Both ends of the interval are taken: systolic 70.0 with
  diastolic 120.0, which the form accepts, gives -50.0, and systolic 130.0 with diastolic
  60.0 gives 70.0. The run with 70.0 and 120.0 entered completes; its box of derived
  metrics shows the pulse pressure as -50.00.
\<close>

theorem pulse_pressure_may_be_negative:
  "(in_domain r \<longrightarrow>
      (\<exists>dm. derived (systolic_bp r) (diastolic_bp r) = Inr dm
         \<and> is_finite (pulse_pressure dm)
         \<and> - 50 \<le> fval (pulse_pressure dm) \<and> fval (pulse_pressure dm) \<le> 70
         \<and> (invoke m (input_df r) = (tri, Inr res)
              \<longrightarrow> prediction_section w m r = (tri @ render (theme_base w) res dm, Inr ()))))
   \<and> in_domain low_pulse_request
   \<and> systolic_bp low_pulse_request = Fin 70 \<and> diastolic_bp low_pulse_request = Fin 120
   \<and> input_form low_pulse_world = ([Static Form_header], Inr low_pulse_request)
   \<and> (\<exists>mp. derived (Fin 70) (Fin 120)
           = Inr \<lparr>pulse_pressure = Fin (- 50), mean_arterial_pressure = mp\<rparr>
         \<and> snd (run low_pulse_world) = Inr ()
         \<and> Derived_box (derived_box None
               \<lparr>pulse_pressure = Fin (- 50), mean_arterial_pressure = mp\<rparr>)
             \<in> set (fst (run low_pulse_world))
         \<and> (\<exists>pre post. derived_box None
               \<lparr>pulse_pressure = Fin (- 50), mean_arterial_pressure = mp\<rparr>
             = pre @ ''<b>Pulse Pressure:</b> -50.00 mmHg<br>'' @ post))
   \<and> (\<exists>mp. derived (Fin 130) (Fin 60)
           = Inr \<lparr>pulse_pressure = Fin 70, mean_arterial_pressure = mp\<rparr>)"
proof -
  have general: "\<exists>dm. derived (systolic_bp r) (diastolic_bp r) = Inr dm
         \<and> is_finite (pulse_pressure dm)
         \<and> - 50 \<le> fval (pulse_pressure dm) \<and> fval (pulse_pressure dm) \<le> 70
         \<and> (invoke m (input_df r) = (tri, Inr res)
              \<longrightarrow> prediction_section w m r = (tri @ render (theme_base w) res dm, Inr ()))"
    if "in_domain r"
  proof -
    from derived_in_domain [OF that] obtain dm where
      dm: "derived (systolic_bp r) (diastolic_bp r) = Inr dm"
        "is_finite (pulse_pressure dm)"
        "- 50 \<le> fval (pulse_pressure dm)" "fval (pulse_pressure dm) \<le> 70"
      by blast
    have "prediction_section w m r = (tri @ render (theme_base w) res dm, Inr ())"
      if "invoke m (input_df r) = (tri, Inr res)"
      using that dm(1) by (rule prediction_section_renders)
    with dm show ?thesis by blast
  qed
  have fields: "systolic_bp low_pulse_request = Fin 70"
    "diastolic_bp low_pulse_request = Fin 120"
    by (simp_all add: low_pulse_request_def)
  have low: "\<exists>mp. derived (Fin 70) (Fin 120)
           = Inr \<lparr>pulse_pressure = Fin (- 50), mean_arterial_pressure = mp\<rparr>
         \<and> snd (run low_pulse_world) = Inr ()
         \<and> Derived_box (derived_box None
               \<lparr>pulse_pressure = Fin (- 50), mean_arterial_pressure = mp\<rparr>)
             \<in> set (fst (run low_pulse_world))
         \<and> (\<exists>pre post. derived_box None
               \<lparr>pulse_pressure = Fin (- 50), mean_arterial_pressure = mp\<rparr>
             = pre @ ''<b>Pulse Pressure:</b> -50.00 mmHg<br>'' @ post)"
  proof -
    from derived_low_pulse obtain mp where
      mp: "derived (Fin 70) (Fin 120)
           = Inr \<lparr>pulse_pressure = Fin (- 50), mean_arterial_pressure = mp\<rparr>"
      by blast
    have th: "theme_base low_pulse_world = None"
      by (simp add: low_pulse_world_def example_world_def)
    have a: "snd (run low_pulse_world) = Inr ()"
      by (simp add: run_low_pulse [OF mp])
    have b: "Derived_box (derived_box None
               \<lparr>pulse_pressure = Fin (- 50), mean_arterial_pressure = mp\<rparr>)
             \<in> set (fst (run low_pulse_world))"
      by (simp add: run_low_pulse [OF mp] th render_def)
    from derived_box_shows [of None
        "\<lparr>pulse_pressure = Fin (- 50), mean_arterial_pressure = mp\<rparr>"]
    obtain pre mid post where "derived_box None
               \<lparr>pulse_pressure = Fin (- 50), mean_arterial_pressure = mp\<rparr>
        = pre @ ''<b>Pulse Pressure:</b> '' @ ''-50.00'' @ '' mmHg<br>''
          @ (mid @ ''<b>Mean Arterial Pressure:</b> '' @ fmt_2f mp @ '' mmHg'' @ post)"
      by (auto simp: fmt_minus_50)
    then have "derived_box None
               \<lparr>pulse_pressure = Fin (- 50), mean_arterial_pressure = mp\<rparr>
        = pre @ ''<b>Pulse Pressure:</b> -50.00 mmHg<br>''
          @ (mid @ ''<b>Mean Arterial Pressure:</b> '' @ fmt_2f mp @ '' mmHg'' @ post)"
      by simp
    then have c: "\<exists>pre post. derived_box None
               \<lparr>pulse_pressure = Fin (- 50), mean_arterial_pressure = mp\<rparr>
             = pre @ ''<b>Pulse Pressure:</b> -50.00 mmHg<br>'' @ post"
      by blast
    from mp a b c show ?thesis by blast
  qed
  from general in_domain_low_pulse fields input_form_low_pulse low derived_high_pulse
  show ?thesis by blast
qed

theorem pulse_pressure_may_be_negative_witness:
  "in_domain low_pulse_request
   \<and> invoke contrary_classifier (input_df low_pulse_request)
       = ([Model_call Predict (input_df low_pulse_request),
           Model_call PredictProba (input_df low_pulse_request)], Inr contrary_result)
   \<and> (\<exists>dm. derived (Fin 70) (Fin 120) = Inr dm
         \<and> - 50 \<le> fval (pulse_pressure dm) \<and> fval (pulse_pressure dm) \<le> 70
         \<and> prediction_section low_pulse_world contrary_classifier low_pulse_request
             = ([Model_call Predict (input_df low_pulse_request),
                 Model_call PredictProba (input_df low_pulse_request)]
                @ render None contrary_result dm, Inr ()))"
proof -
  have d: "in_domain low_pulse_request"
    by (simp add: in_domain_def in_range_def low_pulse_request_def)
  have i: "invoke contrary_classifier (input_df low_pulse_request)
       = ([Model_call Predict (input_df low_pulse_request),
           Model_call PredictProba (input_df low_pulse_request)], Inr contrary_result)"
    by (simp add: invoke_def contrary_classifier_def contrary_result_def and_then_def
        lift_def py_index_def)
  have s: "systolic_bp low_pulse_request = Fin 70" "diastolic_bp low_pulse_request = Fin 120"
    "theme_base low_pulse_world = None"
    by (simp_all add: low_pulse_request_def low_pulse_world_def example_world_def)
  from pulse_pressure_may_be_negative [where r = low_pulse_request
      and m = contrary_classifier and w = low_pulse_world and res = contrary_result
      and tri = "[Model_call Predict (input_df low_pulse_request),
           Model_call PredictProba (input_df low_pulse_request)]"] d i
  obtain dm where "derived (systolic_bp low_pulse_request) (diastolic_bp low_pulse_request)
        = Inr dm"
    "- 50 \<le> fval (pulse_pressure dm)" "fval (pulse_pressure dm) \<le> 70"
    "prediction_section low_pulse_world contrary_classifier low_pulse_request
       = ([Model_call Predict (input_df low_pulse_request),
           Model_call PredictProba (input_df low_pulse_request)]
          @ render (theme_base low_pulse_world) contrary_result dm, Inr ())"
    by blast
  with d i show ?thesis by (auto simp: s)
qed

subsection \<open>Confidence gauge\<close>

lemma charts_render: "charts (render th res dm) = [gauge (prediction res) (confidence res)]"
  by (simp add: render_def result_message_def)

lemma scaled_confidence: "py_mul (Fin q) (py_float 100) = fl_round (q * 100)"
proof -
  have "py_float 100 = Fin 100" using py_float_exact [of 100] by simp
  then show ?thesis by (simp add: py_mul_def signed_zero_def fl_round_def)
qed

lemma scaled_confidence_range:
  assumes "0 \<le> q" "q \<le> 1"
  shows "\<exists>v. fl_round (q * 100) = Fin v \<and> 0 \<le> v \<and> v \<le> 100"
proof (cases "q = 0")
  case True
  then show ?thesis by (simp add: fl_round_def)
next
  case False
  with assms have "0 < q * 100" "of_int 0 \<le> q * 100" "q * 100 \<le> of_int 100" by simp_all
  from fl_round_between [OF this(1) _ this(2,3)] show ?thesis by simp
qed

text \<open>
  C8. The rendering of a result has one chart, the gauge. Its value is the confidence of
  the result times 100 in float arithmetic, and the threshold marker is at the same
  value; the axis runs from 0 to 100, and the three bands are 0 to 50, 50 to 75 and 75 to
  100, in fixed colours. For a finite confidence the value is the product rounded once,
  and for a confidence between 0 and 1 it lies between 0 and 100.
\<close>

theorem gauge_shows_confidence:
  "\<exists>g. charts (render th res dm) = [g]
     \<and> ind_value g = py_mul (confidence res) (py_float 100)
     \<and> threshold_value g = py_mul (confidence res) (py_float 100)
     \<and> py_float 100 = Fin 100
     \<and> axis_range g = (0, 100)
     \<and> steps g = [((0, 50), ''#d4edda''), ((50, 75), ''#fff3cd''), ((75, 100), ''#f8d7da'')]
     \<and> (confidence res = Fin q \<longrightarrow>
           ind_value g = fl_round (q * 100) \<and> threshold_value g = fl_round (q * 100))
     \<and> (confidence res = Fin q \<and> 0 \<le> q \<and> q \<le> 1 \<longrightarrow>
           (\<exists>v. ind_value g = Fin v \<and> threshold_value g = Fin v \<and> 0 \<le> v \<and> v \<le> 100))"
proof -
  let ?g = "gauge (prediction res) (confidence res)"
  have hundred: "py_float 100 = Fin 100" using py_float_exact [of 100] by simp
  have v: "ind_value ?g = py_mul (confidence res) (py_float 100)"
    "threshold_value ?g = py_mul (confidence res) (py_float 100)"
    "axis_range ?g = (0, 100)"
    "steps ?g = [((0, 50), ''#d4edda''), ((50, 75), ''#fff3cd''), ((75, 100), ''#f8d7da'')]"
    by (simp_all add: gauge_def)
  have finite: "ind_value ?g = fl_round (q * 100) \<and> threshold_value ?g = fl_round (q * 100)"
    if "confidence res = Fin q"
    using that by (simp add: gauge_def scaled_confidence)
  have range: "\<exists>v. ind_value ?g = Fin v \<and> threshold_value ?g = Fin v \<and> 0 \<le> v \<and> v \<le> 100"
    if "confidence res = Fin q \<and> 0 \<le> q \<and> q \<le> 1"
  proof -
    from that scaled_confidence_range [of q] obtain v where
      "fl_round (q * 100) = Fin v" "0 \<le> v" "v \<le> 100" by blast
    with finite that show ?thesis by simp
  qed
  from charts_render [of th res dm] hundred v finite range show ?thesis by blast
qed

theorem gauge_shows_confidence_witness:
  "(confidence contrary_result = Fin (3 / 10) \<and> (0::rat) \<le> 3 / 10 \<and> (3::rat) / 10 \<le> 1)
   \<and> (\<exists>g v. charts (render None contrary_result default_metrics) = [g]
         \<and> ind_value g = Fin v \<and> threshold_value g = Fin v \<and> 0 \<le> v \<and> v \<le> 100
         \<and> axis_range g = (0, 100))"
proof -
  have c: "confidence contrary_result = Fin (3 / 10)" by (simp add: contrary_result_def)
  from gauge_shows_confidence [where th = None and res = contrary_result
      and dm = default_metrics and q = "3 / 10"] c
  show ?thesis by auto
qed

subsection \<open>Report\<close>

declare str_int.simps [simp del]

lemma digit_char_cases:
  assumes "0 \<le> d" "d < 10"
  shows "is_digit (digit_char d) \<and> digit_val (digit_char d) = d"
proof -
  from assms have "d = 0 \<or> d = 1 \<or> d = 2 \<or> d = 3 \<or> d = 4 \<or> d = 5 \<or> d = 6 \<or> d = 7
      \<or> d = 8 \<or> d = 9" by presburger
  then show ?thesis
    by (elim disjE) (simp_all add: digit_char_def is_digit_def digit_val_def)
qed

lemma decimal_value_snoc:
  "decimal_value (ds @ [c]) = 10 * decimal_value ds + digit_val c"
  by (simp add: decimal_value_def)

lemma str_int_digits:
  "0 \<le> n \<Longrightarrow> list_all is_digit (str_int n) \<and> decimal_value (str_int n) = n
     \<and> str_int n \<noteq> []"
proof (induction n rule: str_int.induct)
  case (1 n)
  show ?case
  proof (cases "n < 10")
    case True
    then have "str_int n = [digit_char n]" by (subst str_int.simps) simp
    with True 1(2) digit_char_cases [of n] show ?thesis
      by (simp add: decimal_value_def)
  next
    case False
    with 1 have ih: "list_all is_digit (str_int (n div 10))"
      "decimal_value (str_int (n div 10)) = n div 10" by simp_all
    have d: "is_digit (digit_char (n mod 10))" "digit_val (digit_char (n mod 10)) = n mod 10"
      using digit_char_cases [of "n mod 10"] by simp_all
    have "str_int n = str_int (n div 10) @ [digit_char (n mod 10)]"
      using False by (subst str_int.simps) simp
    with ih d show ?thesis by (simp add: decimal_value_snoc)
  qed
qed

lemma round_half_even_near: "\<bar>of_int (round_half_even x) - x\<bar> \<le> 1 / 2"
proof -
  have "of_int \<lfloor>x\<rfloor> \<le> x" "x < of_int \<lfloor>x\<rfloor> + 1" by linarith+
  then show ?thesis by (auto simp: round_half_even_def Let_def)
qed

lemma round_half_even_nonneg: "0 \<le> x \<Longrightarrow> 0 \<le> round_half_even x"
  using round_half_even_ge [of 0 x] by simp

lemma digits_aux:
  "A = 10 * C + D \<Longrightarrow> n = 10 * A + B \<Longrightarrow> C * 100 + (10 * D + B) = (n::int)"
  by simp

lemma two_digits: "n div 100 * 100 + (10 * (n div 10 mod 10) + n mod 10) = (n::int)"
proof -
  have a: "n div 10 = 10 * (n div 10 div 10) + n div 10 mod 10"
    by (rule mult_div_mod_eq [symmetric])
  have b: "n = 10 * (n div 10) + n mod 10"
    by (rule mult_div_mod_eq [symmetric])
  have c: "n div 100 = n div 10 div 10"
    using zdiv_zmult2_eq [of 10 n 10] by simp
  from digits_aux [OF a b] show ?thesis by (simp only: c)
qed

lemma fmt_2f_two_decimals:
  "\<exists>ip fp. fmt_2f (Fin q) = (if q < 0 then ''-'' else '''') @ ip @ ''.'' @ fp
     \<and> ip \<noteq> [] \<and> list_all is_digit ip \<and> length fp = 2 \<and> list_all is_digit fp
     \<and> \<bar>of_int (decimal_value ip * 100 + decimal_value fp) / 100 - \<bar>q\<bar>\<bar> \<le> 1 / 200"
proof -
  define n where "n = round_half_even (\<bar>q\<bar> * 100)"
  define ip where "ip = str_int (n div 100)"
  define fp where "fp = [digit_char (n div 10 mod 10), digit_char (n mod 10)]"
  have n0: "0 \<le> n" unfolding n_def by (rule round_half_even_nonneg) simp
  then have ip: "list_all is_digit ip" "decimal_value ip = n div 100" "ip \<noteq> []"
    using str_int_digits [of "n div 100"] by (simp_all add: ip_def)
  have a: "is_digit (digit_char (n div 10 mod 10))"
     "digit_val (digit_char (n div 10 mod 10)) = n div 10 mod 10"
    using digit_char_cases [of "n div 10 mod 10"] by simp_all
  have b: "is_digit (digit_char (n mod 10))" "digit_val (digit_char (n mod 10)) = n mod 10"
    using digit_char_cases [of "n mod 10"] by simp_all
  have "decimal_value fp = 10 * digit_val (digit_char (n div 10 mod 10))
      + digit_val (digit_char (n mod 10))"
    by (simp add: fp_def decimal_value_def)
  then have fp3: "decimal_value fp = 10 * (n div 10 mod 10) + n mod 10"
    by (simp only: a(2) b(2))
  have fp: "list_all is_digit fp" "length fp = 2"
    using a(1) b(1) by (simp_all add: fp_def)
  have "decimal_value ip * 100 + decimal_value fp = n"
    unfolding ip(2) fp3 by (rule two_digits)
  moreover have "\<bar>of_int n - \<bar>q\<bar> * 100\<bar> \<le> 1 / 2"
    unfolding n_def by (rule round_half_even_near)
  then have "\<bar>of_int n / 100 - \<bar>q\<bar>\<bar> \<le> 1 / 200"
    by (simp add: abs_le_iff field_simps)
  moreover have "fmt_2f (Fin q) = (if q < 0 then ''-'' else '''') @ ip @ ''.'' @ fp"
    by (simp add: fmt_2f_def Let_def n_def ip_def fp_def)
  ultimately show ?thesis using ip fp by metis
qed

text \<open>
  C7. The rendering of a result offers one download: the report, under the file name
  dr_prediction_report.txt. The report has four lines: the label in words (DR Present or
  No DR), the confidence, the pulse pressure and the mean arterial pressure, the three
  numbers formatted with \<open>:.2f\<close>. A finite number so formatted is an optional minus
  sign, digits, a point and exactly two digits, and the decimal read back differs from
  the absolute value of the number by at most half a hundredth.
\<close>

theorem report_contents:
  "downloads (render th res dm)
     = [(report (prediction res) (confidence res) dm, ''dr_prediction_report.txt'')]
   \<and> report p c dm
       = nl @ ''Prediction: '' @ (if p = 0 then ''No DR'' else ''DR Present'')
         @ nl @ ''Confidence: '' @ fmt_2f c
         @ nl @ ''Pulse Pressure: '' @ fmt_2f (pulse_pressure dm)
         @ nl @ ''Mean Arterial Pressure: '' @ fmt_2f (mean_arterial_pressure dm)
         @ nl
   \<and> (\<exists>ip fp. fmt_2f (Fin q) = (if q < 0 then ''-'' else '''') @ ip @ ''.'' @ fp
         \<and> ip \<noteq> [] \<and> list_all is_digit ip \<and> length fp = 2 \<and> list_all is_digit fp
         \<and> \<bar>of_int (decimal_value ip * 100 + decimal_value fp) / 100 - \<bar>q\<bar>\<bar> \<le> 1 / 200)
   \<and> fmt_2f NegZero = ''-0.00''"
proof -
  have "downloads (render th res dm)
     = [(report (prediction res) (confidence res) dm, ''dr_prediction_report.txt'')]"
    by (simp add: render_def result_message_def)
  moreover have "report p c dm
       = nl @ ''Prediction: '' @ (if p = 0 then ''No DR'' else ''DR Present'')
         @ nl @ ''Confidence: '' @ fmt_2f c
         @ nl @ ''Pulse Pressure: '' @ fmt_2f (pulse_pressure dm)
         @ nl @ ''Mean Arterial Pressure: '' @ fmt_2f (mean_arterial_pressure dm)
         @ nl"
    by (simp add: report_def label_text_def)
  moreover have "fmt_2f NegZero = ''-0.00''" by (simp add: fmt_2f_def)
  ultimately show ?thesis using fmt_2f_two_decimals [of q] by blast
qed

subsection \<open>Invoking the classifier on a request in the domains\<close>

text \<open>
  C3. With a binary classifier as the spec describes the artifact, the invocation on a
  request in the domains does not raise: it makes the two calls and returns a result
  whose label is 0 or 1, whose probability vector has two entries, and whose confidence
  is the entry at the label, a number between 0 and 1; the index is inside the vector.
  The prediction section then completes.
\<close>

theorem invoker_safe_in_domain:
  assumes "binary_classifier m" and "in_domain r"
  shows "\<exists>res c. invoke m (input_df r)
           = ([Model_call Predict (input_df r), Model_call PredictProba (input_df r)], Inr res)
     \<and> (prediction res = 0 \<or> prediction res = 1)
     \<and> length (pred_proba res) = 2
     \<and> py_index (pred_proba res) (prediction res) = Inr (confidence res)
     \<and> confidence res = pred_proba res ! nat (prediction res)
     \<and> confidence res = Fin c \<and> 0 \<le> c \<and> c \<le> 1
     \<and> snd (prediction_section w m r) = Inr ()"
proof -
  from assms obtain l p0 p1 where m:
    "predict m (input_df r) = Inr [l]" "l = 0 \<or> l = 1"
    "predict_proba m (input_df r) = Inr [[Fin p0, Fin p1]]"
    "0 \<le> p0" "p0 \<le> 1" "0 \<le> p1" "p1 \<le> 1"
    unfolding binary_classifier_def by blast
  define c where "c = (if l = 0 then p0 else p1)"
  define res where
    "res = \<lparr>prediction = l, pred_proba = [Fin p0, Fin p1], confidence = Fin c\<rparr>"
  have idx: "py_index [Fin p0, Fin p1] l = Inr (Fin c)"
    using m(2) by (auto simp: py_index_def c_def)
  have inv: "invoke m (input_df r)
      = ([Model_call Predict (input_df r), Model_call PredictProba (input_df r)], Inr res)"
    using m(1,3) idx by (simp add: invoke_def and_then_def lift_def py_index_def res_def)
  obtain dm where "derived (systolic_bp r) (diastolic_bp r) = Inr dm"
    using derived_total [of "systolic_bp r" "diastolic_bp r"] by blast
  with inv have "snd (prediction_section w m r) = Inr ()"
    by (simp add: prediction_section_renders)
  moreover have "confidence res = pred_proba res ! nat (prediction res)"
    using m(2) by (auto simp: res_def c_def)
  moreover have "0 \<le> c" "c \<le> 1" using m(4-7) by (simp_all add: c_def)
  ultimately show ?thesis
    using inv m(2) idx by (intro exI [of _ res] exI [of _ c]) (simp add: res_def)
qed

theorem invoker_safe_in_domain_witness:
  "binary_classifier contrary_classifier \<and> in_domain default_request
   \<and> (\<exists>res c. invoke contrary_classifier (input_df default_request)
           = ([Model_call Predict (input_df default_request),
               Model_call PredictProba (input_df default_request)], Inr res)
         \<and> (prediction res = 0 \<or> prediction res = 1)
         \<and> confidence res = Fin c \<and> 0 \<le> c \<and> c \<le> 1
         \<and> snd (prediction_section example_world contrary_classifier default_request)
             = Inr ())"
proof -
  have b: "binary_classifier contrary_classifier"
    unfolding binary_classifier_def contrary_classifier_def
    by (intro allI impI exI [of _ 1] exI [of _ "7 / 10"] exI [of _ "3 / 10"]) simp
  have d: "in_domain default_request"
    by (simp add: in_domain_def in_range_def default_request_def)
  from invoker_safe_in_domain [OF b d, where w = example_world] b d
  show ?thesis by blast
qed

subsection \<open>Animation fetches that fail\<close>

text \<open>
  C2. A fetch that answers with a status other than 200 costs only its own slot: with
  both fetches so answered the animation section shows the two warnings and completes.
  A fetch that answers 200 with a body that is not JSON, or that raises (a timeout, a
  refused connection), is not caught: the run stops at the first fetch, before the form,
  and the classifier is never called.
\<close>

theorem animation_failure_stops_run:
  "run (w\<lparr>artifact := Inr m, http := (\<lambda>url. Response 200 NotJson)\<rparr>)
     = ([Static Page_config, Static Css, Static App_title, Static App_intro,
         Static Welcome_heading, Http_get (urls ! 0)], Inl JSONDecodeError)
   \<and> run (w\<lparr>artifact := Inr m, http := (\<lambda>url. Raises RequestException)\<rparr>)
     = ([Static Page_config, Static Css, Static App_title, Static App_intro,
         Static Welcome_heading, Http_get (urls ! 0)], Inl RequestException)
   \<and> model_calls (fst (run (w\<lparr>artifact := Inr m,
         http := (\<lambda>url. Response 200 NotJson)\<rparr>))) = []
   \<and> animation_section (\<lambda>url. Response 404 NotJson)
     = ([Static Welcome_heading, Http_get (urls ! 0), Http_get (urls ! 1),
         St_warning 1, St_warning 2], Inr ())
   \<and> snd (run example_world) = Inr ()"
proof -
  have a: "run (w\<lparr>artifact := Inr m, http := (\<lambda>url. Response 200 NotJson)\<rparr>)
     = ([Static Page_config, Static Css, Static App_title, Static App_intro,
         Static Welcome_heading, Http_get (urls ! 0)], Inl JSONDecodeError)"
    by (simp add: run_def animation_section_def urls_def load_lottie_url_def
        and_then_def lift_def emit_def)
  have b: "run (w\<lparr>artifact := Inr m, http := (\<lambda>url. Raises RequestException)\<rparr>)
     = ([Static Page_config, Static Css, Static App_title, Static App_intro,
         Static Welcome_heading, Http_get (urls ! 0)], Inl RequestException)"
    by (simp add: run_def animation_section_def urls_def load_lottie_url_def
        and_then_def lift_def emit_def)
  have c: "model_calls (fst (run (w\<lparr>artifact := Inr m,
         http := (\<lambda>url. Response 200 NotJson)\<rparr>))) = []"
    by (simp add: a)
  have d: "snd (run example_world) = Inr ()" by (simp add: run_example)
  from a b c d animations_not_found show ?thesis by simp
qed

end
